theory Spec2Isabelle
  imports Complex_Main "HOL-Library.AList" "HOL-Library.Sublist"
begin

section \<open>Python values, dictionaries and exceptions\<close>

text \<open>
  The application (\<^verbatim>\<open>streamlit_app.py\<close>) is a Streamlit script: it reads widgets,
  calls collaborators of the package (\<^verbatim>\<open>prediction\<close>, \<^verbatim>\<open>utils\<close>,
  \<^verbatim>\<open>data_collection\<close>, \<^verbatim>\<open>kg_utils\<close>), and draws a NetworkX graph through
  PyVis. The values that flow through it are node identifiers and node or edge
  attributes: \<^verbatim>\<open>None\<close>, integers and strings.
\<close>

datatype pyval = PNone | PInt int | PStr string

text \<open>Python truthiness, as used by \<^verbatim>\<open>x if x else 'Unknown'\<close>.\<close>

fun truthy :: "pyval \<Rightarrow> bool" where
  "truthy PNone = False"
| "truthy (PInt i) = (i \<noteq> 0)"
| "truthy (PStr s) = (s \<noteq> [])"

text \<open>
  An attribute dictionary (\<^verbatim>\<open>dict\<close> with string keys) keeps insertion order:
  an association list with distinct keys. \<open>dict_set\<close> is \<^verbatim>\<open>d[k] = v\<close>,
  \<open>dict_get\<close> is \<^verbatim>\<open>d.get(k)\<close>, \<open>dict_item\<close> is \<^verbatim>\<open>d[k]\<close>.
\<close>

type_synonym attrs = "(string \<times> pyval) list"

definition dict_set :: "attrs \<Rightarrow> string \<Rightarrow> pyval \<Rightarrow> attrs" where
  "dict_set d k v = AList.update k v d"

definition dict_get :: "attrs \<Rightarrow> string \<Rightarrow> pyval" where
  "dict_get d k = (case map_of d k of None \<Rightarrow> PNone | Some v \<Rightarrow> v)"

text \<open>
  Only subclasses of \<^verbatim>\<open>Exception\<close> are modelled. An exception carries its class,
  \<^verbatim>\<open>str(e)\<close> and the text \<^verbatim>\<open>traceback.format_exc()\<close> would give for it.
\<close>

datatype exn_class = FileNotFoundError | ValueError | KeyError | OtherException

datatype exn = Exn (cls: exn_class) (msg: string) (tb: string)

fun digit_char :: "nat \<Rightarrow> char" where
  "digit_char n = char_of (48 + n mod 10)"

fun dec :: "nat \<Rightarrow> string" where
  "dec n = (if n < 10 then [digit_char n] else dec (n div 10) @ [digit_char n])"

definition py_repr :: "pyval \<Rightarrow> string" where
  "py_repr v = (case v of
      PNone \<Rightarrow> ''None''
    | PInt i \<Rightarrow> (if i < 0 then ''-'' @ dec (nat (- i)) else dec (nat i))
    | PStr s \<Rightarrow> [CHR 0x27] @ s @ [CHR 0x27])"

definition key_error :: "pyval \<Rightarrow> exn" where
  "key_error k = Exn KeyError (py_repr k) ''Traceback (most recent call last): KeyError''"

definition dict_item :: "attrs \<Rightarrow> string \<Rightarrow> exn + pyval" where
  "dict_item d k = (case map_of d k of None \<Rightarrow> Inl (key_error (PStr k)) | Some v \<Rightarrow> Inr v)"

section \<open>The object store and NetworkX graphs\<close>

text \<open>
  Attribute dictionaries are mutable objects that a graph and its views share, so they
  live in a store: the address of a dictionary is its index, allocation appends. A
  graph holds, in iteration order, its nodes with the address of each node's
  attribute dictionary and its edges with the address of each edge's dictionary, as
  \<^verbatim>\<open>G.nodes(data=True)\<close> and \<^verbatim>\<open>G.edges(data=True)\<close> enumerate them.
  The script never adds or removes a node or an edge, so the structure is a value.
\<close>

type_synonym heap = "attrs list"

record nx_graph =
  node_refs :: "(pyval \<times> nat) list"
  edge_refs :: "(pyval \<times> pyval \<times> nat) list"

definition number_of_nodes :: "nx_graph \<Rightarrow> nat" where
  "number_of_nodes g = length (node_refs g)"

text \<open>
  \<^verbatim>\<open>G.copy()\<close> builds a new graph whose node and edge dictionaries are fresh shallow
  copies (\<^verbatim>\<open>d.copy()\<close>) of the originals: first the nodes, then the edges.
\<close>

definition graph_copy :: "heap \<Rightarrow> nx_graph \<Rightarrow> heap \<times> nx_graph" where
  "graph_copy h g =
     (let ns = node_refs g;
          es = edge_refs g;
          h1 = h @ map (\<lambda>(n, a). h ! a) ns;
          ns' = zip (map fst ns) [length h ..< length h + length ns];
          h2 = h1 @ map (\<lambda>(u, v, a). h ! a) es;
          es' = map (\<lambda>((u, v, a), a'). (u, v, a'))
                  (zip es [length h1 ..< length h1 + length es])
      in (h2, \<lparr>node_refs = ns', edge_refs = es'\<rparr>))"

text \<open>
  Lines 59 to 64: every node of the working copy gets a \<^verbatim>\<open>label\<close>, its
  \<^verbatim>\<open>name\<close> when it has one and the node identifier otherwise.
\<close>

fun label_nodes :: "heap \<Rightarrow> (pyval \<times> nat) list \<Rightarrow> heap" where
  "label_nodes h [] = h"
| "label_nodes h ((node, a) # rest) =
     (let data = h ! a in
      label_nodes
        (h[a := dict_set data ''label''
                  (case map_of data ''name'' of Some nm \<Rightarrow> nm | None \<Rightarrow> node)])
        rest)"

text \<open>Lines 56 to 64 together: the copy, then the labels written into the copy.\<close>

definition working_copy :: "heap \<Rightarrow> nx_graph \<Rightarrow> heap \<times> nx_graph" where
  "working_copy h subgraph =
     (case graph_copy h subgraph of
        (h1, subgraph_copy) \<Rightarrow> (label_nodes h1 (node_refs subgraph_copy), subgraph_copy))"

text \<open>
  Two notions used below. A NetworkX graph holds both ends of each of its edges as
  nodes (\<^verbatim>\<open>add_edge\<close> adds them): \<open>nx_closed\<close>. The dictionaries a graph
  reaches are \<open>graph_addrs\<close>.
\<close>

definition nx_closed :: "nx_graph \<Rightarrow> bool" where
  "nx_closed g =
     list_all (\<lambda>(u, v, a). u \<in> set (map fst (node_refs g)) \<and> v \<in> set (map fst (node_refs g)))
       (edge_refs g)"

definition graph_addrs :: "nx_graph \<Rightarrow> nat list" where
  "graph_addrs g = map snd (node_refs g) @ map (\<lambda>(u, v, a). a) (edge_refs g)"

text \<open>
  What a library call that is handed a graph may do to the store: allocate, and write
  to the dictionaries of that graph; every other dictionary keeps its content.
\<close>

definition writes_only :: "nx_graph \<Rightarrow> heap \<Rightarrow> heap \<Rightarrow> bool" where
  "writes_only g h h' =
     (length h \<le> length h' \<and>
      list_all (\<lambda>a. a \<in> set (graph_addrs g) \<or> h' ! a = h ! a) [0 ..< length h])"

section \<open>PyVis networks and node styling\<close>

text \<open>
  A PyVis \<^verbatim>\<open>Network\<close> maps a node identifier to that node's option dictionary
  (\<^verbatim>\<open>node_map\<close>). \<^verbatim>\<open>net.get_node(n)\<close> is \<^verbatim>\<open>node_map[n]\<close> and raises
  \<^verbatim>\<open>KeyError\<close> for an unknown node; \<^verbatim>\<open>net.get_node(n)[k] = v\<close> updates the
  dictionary in place.
\<close>

type_synonym net = "(pyval \<times> attrs) list"

definition get_node_set :: "net \<Rightarrow> pyval \<Rightarrow> string \<Rightarrow> pyval \<Rightarrow> exn + net" where
  "get_node_set nt node k v =
     (case map_of nt node of
        None \<Rightarrow> Inl (key_error node)
      | Some d \<Rightarrow> Inr (AList.update node (dict_set d k v) nt))"

definition set_color_shape :: "net \<Rightarrow> pyval \<Rightarrow> string \<Rightarrow> string \<Rightarrow> exn + net" where
  "set_color_shape nt node c s =
     (case get_node_set nt node ''color'' (PStr c) of
        Inl e \<Rightarrow> Inl e
      | Inr nt1 \<Rightarrow> get_node_set nt1 node ''shape'' (PStr s))"

text \<open>Lines 72 to 90: the chain of comparisons on \<^verbatim>\<open>data.get('type')\<close>.\<close>

definition style_node :: "pyval \<Rightarrow> pyval \<Rightarrow> net \<Rightarrow> exn + net" where
  "style_node node_type node nt =
     (if node_type = PStr ''Player'' then set_color_shape nt node ''blue'' ''ellipse''
      else if node_type = PStr ''Team'' then set_color_shape nt node ''green'' ''box''
      else if node_type = PStr ''Game'' then set_color_shape nt node ''red'' ''diamond''
      else if node_type = PStr ''Opponent_Team'' then set_color_shape nt node ''purple'' ''dot''
      else if node_type = PStr ''Home_Away'' then set_color_shape nt node ''orange'' ''triangle''
      else if node_type = PStr ''Performance'' then set_color_shape nt node ''yellow'' ''star''
      else Inr nt)"

fun style_nodes :: "heap \<Rightarrow> net \<Rightarrow> (pyval \<times> nat) list \<Rightarrow> exn + net" where
  "style_nodes h nt [] = Inr nt"
| "style_nodes h nt ((node, a) # rest) =
     (case style_node (dict_get (h ! a) ''type'') node nt of
        Inl e \<Rightarrow> Inl e
      | Inr nt' \<Rightarrow> style_nodes h nt' rest)"

text \<open>
  The styling table as the specification words it: a fixed lookup from the node type
  to a colour and a shape, with no entry for any other value.
\<close>

definition spec_style_table :: "(string \<times> string \<times> string) list" where
  "spec_style_table =
     [(''Player'', ''blue'', ''ellipse''),
      (''Team'', ''green'', ''box''),
      (''Game'', ''red'', ''diamond''),
      (''Opponent_Team'', ''purple'', ''dot''),
      (''Home_Away'', ''orange'', ''triangle''),
      (''Performance'', ''yellow'', ''star'')]"

definition spec_style :: "pyval \<Rightarrow> (string \<times> string) option" where
  "spec_style t = (case t of PStr s \<Rightarrow> map_of spec_style_table s | _ \<Rightarrow> None)"

text \<open>
  What PyVis's \<^verbatim>\<open>from_nx\<close> does with the graph it is handed, as far as the script
  relies on it. It adds every node of the graph to the network (\<open>pyvis_has_nodes\<close>).
  It leaves the \<^verbatim>\<open>type\<close> of every node as it was (\<open>keeps_type\<close>: between the
  store \<open>h\<close> it was given and the store \<open>h'\<close> it leaves). And \<^verbatim>\<open>add_node\<close> shows a
  node under its \<^verbatim>\<open>label\<close> when that is truthy and under its identifier otherwise
  (\<^verbatim>\<open>if label: node_label = label else: node_label = n_id\<close>): \<open>pyvis_labels\<close>.
\<close>

definition pyvis_has_nodes :: "nx_graph \<Rightarrow> net \<Rightarrow> bool" where
  "pyvis_has_nodes g nt = list_all (\<lambda>(n, a). map_of nt n \<noteq> None) (node_refs g)"

definition keeps_type :: "nx_graph \<Rightarrow> heap \<Rightarrow> heap \<Rightarrow> bool" where
  "keeps_type g h h' =
     list_all (\<lambda>(n, a). dict_get (h' ! a) ''type'' = dict_get (h ! a) ''type'') (node_refs g)"

definition pyvis_labels :: "heap \<Rightarrow> nx_graph \<Rightarrow> net \<Rightarrow> bool" where
  "pyvis_labels h g nt =
     list_all
       (\<lambda>(n, a). case map_of nt n of
                    None \<Rightarrow> False
                  | Some d \<Rightarrow>
                      map_of d ''label'' =
                        Some (if truthy (dict_get (h ! a) ''label'')
                              then dict_get (h ! a) ''label'' else n))
       (node_refs g)"

section \<open>The world: store, files, and what the user and the log see\<close>

datatype collaborator =
    NewModelManager | ManagerLoadModels | BuildKnowledgeGraph
  | GetAllPlayers | GetPlayerId | GetTeamData
  | PrepareInput | PredictRegression | PredictClassification
  | ExtractContextSubgraph | GetPlayerTeam | GenerateExplanation

datatype event =
    StTitle string
  | StSelectbox string
  | StTextInput string
  | StHeader string
  | StButton string
  | StSubheader string
  | StWrite string
  | StInfo string
  | StWarning string
  | StError string
  | ComponentsHtml string
  | LogError string
  | Invoked collaborator

record world =
  heap :: heap
  files :: "(string \<times> string) list"
  events :: "event list"

definition emit :: "event \<Rightarrow> world \<Rightarrow> world" where
  "emit ev w = w\<lparr>events := events w @ [ev]\<rparr>"

section \<open>Data passed between the stages\<close>

record prediction_result =
  points :: rat
  exceeds_threshold :: bool

record relationship =
  source :: pyval
  target :: pyval
  relation :: pyval

record context_info =
  Player :: string
  Player_Team :: pyval
  Opponent :: string
  Relationships :: "relationship list"

text \<open>
  A table is the list of its rows. The roster has an identifier and a name per row,
  the team table an identifier and the \<^verbatim>\<open>abbreviation\<close> column. \<^verbatim>\<open>df.empty\<close>
  is the absence of rows.
\<close>

type_synonym player_table = "(pyval \<times> string) list"
type_synonym team_table = "(int \<times> string) list"
type_synonym features = "rat list"

definition abbreviation_column :: "team_table \<Rightarrow> string list" where
  "abbreviation_column all_teams = map snd all_teams"

text \<open>
  The \<^verbatim>\<open>ModelManager\<close> object: its pipelines (opaque handles), the knowledge graph,
  and the two methods the script calls on it.
\<close>

record model_manager =
  regressor_pipeline :: nat
  classifier_pipeline :: nat
  KG :: nx_graph
  get_player_team :: "pyval \<Rightarrow> exn + pyval"
  generate_explanation ::
    "string \<Rightarrow> string \<Rightarrow> prediction_result \<Rightarrow> context_info \<Rightarrow> exn + string"

section \<open>The environment: widgets, collaborators, libraries, the operating system\<close>

text \<open>
  Everything the script does not define itself is a parameter: what the widgets return
  in this run of the script, what each collaborator returns or raises, what PyVis
  builds from a graph and which dictionaries it writes to on the way, the name the
  temporary file gets, and faults of the file system and of the HTML component.
  Caching by \<^verbatim>\<open>st.cache_resource\<close> is left out: \<open>load_models\<close> runs its body.
\<close>

record env =
  st_season :: string
  st_player_name :: string
  st_opponent :: "string list \<Rightarrow> string"
  st_predict :: bool
  ModelManager :: "string \<Rightarrow> exn + model_manager"
  mm_load_models :: "model_manager \<Rightarrow> exn + model_manager"
  build_knowledge_graph :: "model_manager \<Rightarrow> exn + model_manager"
  get_all_players :: "string \<Rightarrow> exn + player_table"
  get_player_id :: "string \<Rightarrow> player_table \<Rightarrow> exn + pyval"
  get_team_data :: "exn + team_table"
  prepare_input :: "string \<Rightarrow> string \<Rightarrow> string \<Rightarrow> exn + features"
  predict_regression :: "features \<Rightarrow> nat \<Rightarrow> exn + rat"
  predict_classification :: "features \<Rightarrow> nat \<Rightarrow> exn + int"
  extract_context_subgraph ::
    "heap \<Rightarrow> nx_graph \<Rightarrow> pyval \<Rightarrow> string \<Rightarrow> model_manager \<Rightarrow> heap \<times> (exn + nx_graph)"
  from_nx :: "heap \<Rightarrow> nx_graph \<Rightarrow> heap \<times> (exn + net)"
  named_temporary_file :: "(string \<times> string) list \<Rightarrow> exn + string"
  save_graph :: "net \<Rightarrow> exn + string"
  read_fault :: "string \<Rightarrow> exn option"
  remove_fault :: "string \<Rightarrow> exn option"
  html_fault :: "string \<Rightarrow> exn option"

section \<open>Files\<close>

definition file_not_found :: "string \<Rightarrow> exn" where
  "file_not_found path =
     Exn FileNotFoundError (''[Errno 2] No such file or directory: '' @ py_repr (PStr path))
       ''Traceback (most recent call last): FileNotFoundError''"

definition write_file :: "(string \<times> string) list \<Rightarrow> string \<Rightarrow> string \<Rightarrow> (string \<times> string) list" where
  "write_file fs path content = AList.update path content fs"

definition read_file :: "env \<Rightarrow> (string \<times> string) list \<Rightarrow> string \<Rightarrow> exn + string" where
  "read_file en fs path =
     (case map_of fs path of
        None \<Rightarrow> Inl (file_not_found path)
      | Some content \<Rightarrow>
          (case read_fault en path of Some e \<Rightarrow> Inl e | None \<Rightarrow> Inr content))"

definition os_remove :: "env \<Rightarrow> (string \<times> string) list \<Rightarrow> string \<Rightarrow> exn + (string \<times> string) list" where
  "os_remove en fs path =
     (case map_of fs path of
        None \<Rightarrow> Inl (file_not_found path)
      | Some content \<Rightarrow>
          (case remove_fault en path of Some e \<Rightarrow> Inl e | None \<Rightarrow> Inr (AList.delete path fs)))"

section \<open>\<^verbatim>\<open>visualize_subgraph\<close>\<close>

text \<open>
  The body of the \<^verbatim>\<open>try\<close> (lines 55 to 105). It returns the exception that left
  it, if any, and the world as it is at that moment: what was written before the
  exception stays written.
\<close>

definition render :: "env \<Rightarrow> nx_graph \<Rightarrow> world \<Rightarrow> exn option \<times> world" where
  "render en subgraph w =
     (case working_copy (heap w) subgraph of (h2, subgraph_copy) \<Rightarrow>
     (case from_nx en h2 subgraph_copy of
        (h3, Inl e) \<Rightarrow> (Some e, w\<lparr>heap := h3\<rparr>)
      | (h3, Inr nt) \<Rightarrow>
     (let w1 = w\<lparr>heap := h3\<rparr> in
     (case style_nodes h3 nt (node_refs subgraph_copy) of
        Inl e \<Rightarrow> (Some e, w1)
      | Inr nt' \<Rightarrow>
     (case named_temporary_file en (files w1) of
        Inl e \<Rightarrow> (Some e, w1)
      | Inr tmp_file_path \<Rightarrow>
     (let w2 = w1\<lparr>files := write_file (files w1) tmp_file_path []\<rparr> in
     (case save_graph en nt' of
        Inl e \<Rightarrow> (Some e, w2)
      | Inr doc \<Rightarrow>
     (let w3 = w2\<lparr>files := write_file (files w2) tmp_file_path doc\<rparr> in
     (case read_file en (files w3) tmp_file_path of
        Inl e \<Rightarrow> (Some e, w3)
      | Inr html \<Rightarrow>
     (case os_remove en (files w3) tmp_file_path of
        Inl e \<Rightarrow> (Some e, w3)
      | Inr fs \<Rightarrow>
     (let w4 = w3\<lparr>files := fs\<rparr> in
     (case html_fault en html of
        Some e \<Rightarrow> (Some e, w4)
      | None \<Rightarrow> (None, emit (ComponentsHtml html) w4)))))))))))))"

text \<open>
  Lines 92 to 105 on their own, from a finished network on: it is serialized into a
  temporary file, the file is read back and removed, and the page is embedded.
  \<open>render\<close> ends with exactly these steps. Since \<^verbatim>\<open>save_graph\<close> is any function
  of the network, saying that \<open>render\<close> equals \<open>publish\<close> of a network says which
  network is serialized and shown.
\<close>

definition publish :: "env \<Rightarrow> net \<Rightarrow> world \<Rightarrow> exn option \<times> world" where
  "publish en nt w1 =
     (case named_temporary_file en (files w1) of
        Inl e \<Rightarrow> (Some e, w1)
      | Inr tmp_file_path \<Rightarrow>
     (let w2 = w1\<lparr>files := write_file (files w1) tmp_file_path []\<rparr> in
     (case save_graph en nt of
        Inl e \<Rightarrow> (Some e, w2)
      | Inr doc \<Rightarrow>
     (let w3 = w2\<lparr>files := write_file (files w2) tmp_file_path doc\<rparr> in
     (case read_file en (files w3) tmp_file_path of
        Inl e \<Rightarrow> (Some e, w3)
      | Inr html \<Rightarrow>
     (case os_remove en (files w3) tmp_file_path of
        Inl e \<Rightarrow> (Some e, w3)
      | Inr fs \<Rightarrow>
     (let w4 = w3\<lparr>files := fs\<rparr> in
     (case html_fault en html of
        Some e \<Rightarrow> (Some e, w4)
      | None \<Rightarrow> (None, emit (ComponentsHtml html) w4)))))))))"

definition visualize_subgraph :: "env \<Rightarrow> nx_graph \<Rightarrow> world \<Rightarrow> world" where
  "visualize_subgraph en subgraph w =
     (if number_of_nodes subgraph = 0
      then emit (StWarning ''No subgraph available to display.'') w
      else
        (case render en subgraph w of
           (None, w') \<Rightarrow> w'
         | (Some e, w') \<Rightarrow>
             emit (StError ''Error visualizing the Knowledge Graph subgraph.'')
               (emit (LogError (''Error visualizing subgraph: '' @ msg e @ [CHR 0x0A] @ tb e))
                  w')))"

section \<open>Formatting the prediction\<close>

text \<open>
  A Python float is the rational number it stands for. \<^verbatim>\<open>f"{x:.2f}"\<close> rounds that
  exact value to two decimals, ties to even, and prints sign, integer part, point and
  two digits. Infinities, NaN and the negative zero are not rationals and are left out.
\<close>

definition round_half_even :: "rat \<Rightarrow> int" where
  "round_half_even q =
     (let f = \<lfloor>q\<rfloor>; d = q - of_int f in
      if d < 1 / 2 then f
      else if 1 / 2 < d then f + 1
      else if even f then f else f + 1)"

definition format_2f :: "rat \<Rightarrow> string" where
  "format_2f x =
     (let n = nat (round_half_even (\<bar>x\<bar> * 100)) in
      (if x < 0 then ''-'' else []) @ dec (n div 100) @ ''.'' @
      [digit_char (n div 10), digit_char n])"

section \<open>The context handed to the explanation\<close>

text \<open>
  Lines 180 to 187: the comprehension over \<^verbatim>\<open>subgraph.edges(data=True)\<close>;
  \<^verbatim>\<open>d['relation']\<close> raises \<^verbatim>\<open>KeyError\<close> on an edge without that attribute.
\<close>

fun relationships :: "heap \<Rightarrow> (pyval \<times> pyval \<times> nat) list \<Rightarrow> exn + relationship list" where
  "relationships h [] = Inr []"
| "relationships h ((u, v, a) # rest) =
     (case dict_item (h ! a) ''relation'' of
        Inl e \<Rightarrow> Inl e
      | Inr r \<Rightarrow>
          (case relationships h rest of
             Inl e \<Rightarrow> Inl e
           | Inr rs \<Rightarrow> Inr (\<lparr>source = u, target = v, relation = r\<rparr> # rs)))"

definition build_context_info ::
  "heap \<Rightarrow> string \<Rightarrow> pyval \<Rightarrow> string \<Rightarrow> nx_graph \<Rightarrow> exn + context_info" where
  "build_context_info h player_name player_team_abbr opponent subgraph =
     (case relationships h (edge_refs subgraph) of
        Inl e \<Rightarrow> Inl e
      | Inr rs \<Rightarrow>
          Inr \<lparr>Player = player_name,
               Player_Team = (if truthy player_team_abbr then player_team_abbr
                              else PStr ''Unknown''),
               Opponent = opponent,
               Relationships = rs\<rparr>)"

section \<open>\<^verbatim>\<open>load_models\<close>\<close>

definition load_models_body :: "env \<Rightarrow> string \<Rightarrow> world \<Rightarrow> (exn + model_manager) \<times> world" where
  "load_models_body en season w =
     (let w1 = emit (Invoked NewModelManager) w in
     (case ModelManager en season of
        Inl e \<Rightarrow> (Inl e, w1)
      | Inr m0 \<Rightarrow>
     (let w2 = emit (Invoked ManagerLoadModels) w1 in
     (case mm_load_models en m0 of
        Inl e \<Rightarrow> (Inl e, w2)
      | Inr m1 \<Rightarrow>
     (let w3 = emit (Invoked BuildKnowledgeGraph) w2 in
     (case build_knowledge_graph en m1 of
        Inl e \<Rightarrow> (Inl e, w3)
      | Inr model_manager \<Rightarrow> (Inr model_manager, w3)))))))"

definition load_models :: "env \<Rightarrow> string \<Rightarrow> world \<Rightarrow> (exn + model_manager) \<times> world" where
  "load_models en season w =
     (case load_models_body en season w of
        (Inr model_manager, w') \<Rightarrow> (Inr model_manager, w')
      | (Inl e, w') \<Rightarrow>
          (if cls e = FileNotFoundError
           then (Inl e, emit (LogError (''Model file missing: '' @ msg e)) w')
           else (Inl e, emit (LogError (''Unexpected error loading models: '' @ msg e)) w')))"

section \<open>\<^verbatim>\<open>main\<close>\<close>

text \<open>The body of the \<^verbatim>\<open>try\<close> under the Predict button (lines 155 to 196).\<close>

definition predict ::
  "env \<Rightarrow> model_manager \<Rightarrow> string \<Rightarrow> string \<Rightarrow> pyval \<Rightarrow> string \<Rightarrow> world
     \<Rightarrow> exn option \<times> world" where
  "predict en mm season player_name player_id opponent w =
     (let w1 = emit (Invoked PrepareInput) w in
     (case prepare_input en player_name opponent season of
        Inl e \<Rightarrow> (Some e, w1)
      | Inr X \<Rightarrow>
     (let w2 = emit (Invoked PredictRegression) w1 in
     (case predict_regression en X (regressor_pipeline mm) of
        Inl e \<Rightarrow> (Some e, w2)
      | Inr reg_pred \<Rightarrow>
     (let w3 = emit (Invoked PredictClassification) w2 in
     (case predict_classification en X (classifier_pipeline mm) of
        Inl e \<Rightarrow> (Some e, w3)
      | Inr clf_pred \<Rightarrow>
     (let w4 = emit (StWrite (''**Predicted Points:** '' @ format_2f reg_pred)) w3;
          w5 = emit (StWrite (''**Will Exceed Threshold:** '' @
                       (if clf_pred = 1 then ''Yes'' else ''No''))) w4;
          prediction_result = \<lparr>points = reg_pred, exceeds_threshold = (clf_pred \<noteq> 0)\<rparr>;
          w6 = emit (Invoked ExtractContextSubgraph) w5
      in
     (case extract_context_subgraph en (heap w6) (KG mm) player_id opponent mm of
        (h, Inl e) \<Rightarrow> (Some e, w6\<lparr>heap := h\<rparr>)
      | (h, Inr subgraph) \<Rightarrow>
     (let w7 = emit (Invoked GetPlayerTeam) (w6\<lparr>heap := h\<rparr>) in
     (case get_player_team mm player_id of
        Inl e \<Rightarrow> (Some e, w7)
      | Inr player_team_abbr \<Rightarrow>
     (case build_context_info (heap w7) player_name player_team_abbr opponent subgraph of
        Inl e \<Rightarrow> (Some e, w7)
      | Inr context_info \<Rightarrow>
     (let w8 = emit (Invoked GenerateExplanation) w7 in
     (case generate_explanation mm player_name opponent prediction_result context_info of
        Inl e \<Rightarrow> (Some e, w8)
      | Inr explanation \<Rightarrow>
     (let w9 = emit (StSubheader ''Prediction Explanation'') w8;
          w10 = emit (StWrite explanation) w9;
          w11 = emit (StSubheader ''Knowledge Graph Subgraph'') w10
      in (None, visualize_subgraph en subgraph w11)))))))))))))))"

text \<open>
  Lines 190 to 196 on their own, from a finished context on: the explanation is
  generated and shown, then the subgraph is rendered. \<open>predict\<close> ends with exactly
  these steps. Since \<^verbatim>\<open>generate_explanation\<close> is any function of its arguments,
  saying that \<open>predict\<close> equals \<open>explain_and_render\<close> of a context says which context
  the generator is handed, and which graph is rendered.
\<close>

definition explain_and_render ::
  "env \<Rightarrow> model_manager \<Rightarrow> string \<Rightarrow> string \<Rightarrow> prediction_result \<Rightarrow> context_info
     \<Rightarrow> nx_graph \<Rightarrow> world \<Rightarrow> exn option \<times> world" where
  "explain_and_render en mm player_name opponent prediction_result context_info subgraph w7 =
     (let w8 = emit (Invoked GenerateExplanation) w7 in
     (case generate_explanation mm player_name opponent prediction_result context_info of
        Inl e \<Rightarrow> (Some e, w8)
      | Inr explanation \<Rightarrow>
     (let w9 = emit (StSubheader ''Prediction Explanation'') w8;
          w10 = emit (StWrite explanation) w9;
          w11 = emit (StSubheader ''Knowledge Graph Subgraph'') w10
      in (None, visualize_subgraph en subgraph w11))))"

text \<open>The three \<^verbatim>\<open>except\<close> clauses of lines 198 to 203, in their order.\<close>

definition predict_handlers :: "exn option \<times> world \<Rightarrow> world" where
  "predict_handlers r =
     (case r of
        (None, w) \<Rightarrow> w
      | (Some e, w) \<Rightarrow>
          (if cls e = FileNotFoundError then emit (StError (''Model file missing: '' @ msg e)) w
           else if cls e = ValueError then emit (StError (''Input error: '' @ msg e)) w
           else emit (StError (''An unexpected error occurred: '' @ msg e)) w))"

text \<open>
  One run of the script. The result is the exception that escaped \<^verbatim>\<open>main\<close>, if
  any (the three data calls of lines 131 to 143 stand outside every \<^verbatim>\<open>try\<close>),
  and the world it leaves.
\<close>

definition main :: "env \<Rightarrow> world \<Rightarrow> exn option \<times> world" where
  "main en w0 =
     (let w1 = emit (StTitle ''NBA Player Performance Prediction'') w0;
          w2 = emit (StSelectbox ''Select Season:'') w1;
          season = st_season en
      in
     (case load_models en season w2 of
        (Inl e, w3) \<Rightarrow>
          (if cls e = FileNotFoundError
           then (None, emit (StError (''Model file missing: '' @ msg e)) w3)
           else (None, emit (StError (''An unexpected error occurred while loading models: ''
                                       @ msg e)) w3))
      | (Inr model_manager, w3) \<Rightarrow>
     (let w4 = emit (StTextInput ''Enter Player Name (e.g., LeBron James)'') w3;
          player_name = st_player_name en
      in
      if player_name \<noteq> [] then
       (let w5 = emit (Invoked GetAllPlayers) w4 in
       (case get_all_players en season of
          Inl e \<Rightarrow> (Some e, w5)
        | Inr players_df \<Rightarrow>
        if players_df = []
        then (None, emit (StError (''No player data available for season '' @ season @ ''.'')) w5)
        else
       (let w6 = emit (Invoked GetPlayerId) w5 in
       (case get_player_id en player_name players_df of
          Inl e \<Rightarrow> (Some e, w6)
        | Inr player_id \<Rightarrow>
        if player_id = PNone
        then (None, emit (StError ''Player not found. Please check the name and try again.'') w6)
        else
       (let w7 = emit (Invoked GetTeamData) w6 in
       (case get_team_data en of
          Inl e \<Rightarrow> (Some e, w7)
        | Inr all_teams \<Rightarrow>
        if all_teams = []
        then (None, emit (StError ''No team data available.'') w7)
        else
       (let team_abbreviations = abbreviation_column all_teams;
            w8 = emit (StSelectbox ''Select Opponent Team'') w7;
            opponent = st_opponent en team_abbreviations;
            w9 = emit (StHeader (''Predict Performance for '' @ player_name @ '' against ''
                                 @ opponent)) w8;
            w10 = emit (StButton ''Predict'') w9
        in
        if st_predict en
        then (None, predict_handlers
                      (predict en model_manager season player_name player_id opponent w10))
        else (None, w10))))))))
      else
        (None, emit (StInfo (''Please enter a player'' @ [CHR 0x27]
                             @ ''s name to begin prediction.'')) w4))))"

section \<open>Observing a run\<close>

text \<open>
  What a run added to the record of events, and the events that only feature building
  or a stage after it (prediction, extraction, explanation, rendering) produces.
\<close>

definition new_events :: "world \<Rightarrow> world \<Rightarrow> event list" where
  "new_events w w' = drop (length (events w)) (events w')"

fun later_stage :: "event \<Rightarrow> bool" where
  "later_stage (Invoked c) =
     (c \<in> set [PrepareInput, PredictRegression, PredictClassification,
               ExtractContextSubgraph, GetPlayerTeam, GenerateExplanation])"
| "later_stage (StWrite s) = True"
| "later_stage (StSubheader s) = True"
| "later_stage (StWarning s) = True"
| "later_stage (ComponentsHtml s) = True"
| "later_stage ev = False"

text \<open>The double nearest to 28.4, which is what the Python literal \<^verbatim>\<open>28.4\<close> denotes.\<close>

definition float_28_4 :: rat where
  "float_28_4 = 3996944669291315 / 140737488355328"

section \<open>What the user reads\<close>

text \<open>
  \<^verbatim>\<open>st.write\<close> renders its string as Markdown: a pair of asterisks switches bold
  type on or off and is not shown itself.
\<close>

fun markdown_text :: "string \<Rightarrow> string" where
  "markdown_text (a # b # rest) =
     (if a = CHR ''*'' \<and> b = CHR ''*'' then markdown_text rest
      else a # markdown_text (b # rest))"
| "markdown_text s = s"

section \<open>A sample run\<close>

text \<open>
  A small store, graph and environment on which the definitions run: the player node
  has a name, the team node has none. The library stand-ins behave as PyVis and the
  file system normally do. \<open>sample_from_nx\<close> follows PyVis's \<^verbatim>\<open>from_nx\<close>: every
  node of the graph it is handed gets a default \<^verbatim>\<open>size\<close>, every edge its
  \<^verbatim>\<open>width\<close> (the \<^verbatim>\<open>weight\<close>, 1 by default, moved there), and the network gets
  one option dictionary per node, built as \<^verbatim>\<open>add_node\<close> builds it: the colour, the
  node's other attributes, then identifier, label and shape, the label being the
  identifier when the node's \<^verbatim>\<open>label\<close> is falsy.
\<close>

definition sample_heap :: heap where
  "sample_heap =
     [[(''type'', PStr ''Player''), (''name'', PStr ''LeBron James'')],
      [(''type'', PStr ''Team'')],
      [(''relation'', PStr ''plays_for'')]]"

definition sample_graph :: nx_graph where
  "sample_graph =
     \<lparr>node_refs = [(PInt 2544, 0), (PStr ''LAL'', 1)],
      edge_refs = [(PInt 2544, PStr ''LAL'', 2)]\<rparr>"

definition empty_graph :: nx_graph where
  "empty_graph = \<lparr>node_refs = [], edge_refs = []\<rparr>"

definition sample_world :: world where
  "sample_world = \<lparr>heap = sample_heap, files = [], events = []\<rparr>"

definition default_size :: "(pyval \<times> nat) list \<Rightarrow> heap \<Rightarrow> heap" where
  "default_size ns h =
     fold (\<lambda>(n, a) hp.
             hp[a := (if map_of (hp ! a) ''size'' = None
                      then dict_set (hp ! a) ''size'' (PInt 10) else hp ! a)]) ns h"

definition default_width :: "(pyval \<times> pyval \<times> nat) list \<Rightarrow> heap \<Rightarrow> heap" where
  "default_width es h =
     fold (\<lambda>(u, v, a) hp.
             hp[a := (let d = hp ! a in
                      if map_of d ''value'' = None \<or> map_of d ''width'' = None
                      then (let wgt = (case map_of d ''weight'' of None \<Rightarrow> PInt 1 | Some x \<Rightarrow> x)
                            in AList.delete ''weight''
                                 (dict_set (dict_set d ''weight'' wgt) ''width'' wgt))
                      else d)]) es h"

definition add_node_options :: "pyval \<Rightarrow> attrs \<Rightarrow> attrs" where
  "add_node_options n data =
     (let label = dict_get data ''label'';
          node_label = (if truthy label then label else n);
          shape = (case map_of data ''shape'' of Some s \<Rightarrow> s | None \<Rightarrow> PStr ''dot'');
          color = (case map_of data ''color'' of Some c \<Rightarrow> c | None \<Rightarrow> PStr ''#97c2fc'');
          options = filter (\<lambda>(k, v). k \<notin> set [''label'', ''shape'', ''color'']) data
      in dict_set (dict_set (dict_set ((''color'', color) # options) ''id'' n)
                     ''label'' node_label) ''shape'' shape)"

definition sample_from_nx :: "heap \<Rightarrow> nx_graph \<Rightarrow> heap \<times> (exn + net)" where
  "sample_from_nx h g =
     (let h' = default_width (edge_refs g) (default_size (node_refs g) h) in
      (h', Inr (map (\<lambda>(n, a). (n, add_node_options n (h' ! a))) (node_refs g))))"

definition sample_manager :: model_manager where
  "sample_manager =
     \<lparr>regressor_pipeline = 0,
      classifier_pipeline = 1,
      KG = sample_graph,
      get_player_team = (\<lambda>player_id. Inr (PStr ''LAL'')),
      generate_explanation = (\<lambda>player_name opponent result info. Inr ''Strong recent form.'')\<rparr>"

definition sample_env :: env where
  "sample_env =
     \<lparr>st_season = ''2023-24'',
      st_player_name = ''LeBron James'',
      st_opponent = (\<lambda>options. ''BOS''),
      st_predict = True,
      ModelManager = (\<lambda>season. Inr sample_manager),
      mm_load_models = Inr,
      build_knowledge_graph = Inr,
      get_all_players = (\<lambda>season. Inr [(PInt 2544, ''LeBron James'')]),
      get_player_id = (\<lambda>name table. Inr (PInt 2544)),
      get_team_data = Inr [(1610612738, ''BOS''), (1610612747, ''LAL'')],
      prepare_input = (\<lambda>player_name opponent season. Inr [1, 0]),
      predict_regression = (\<lambda>X pipeline. Inr float_28_4),
      predict_classification = (\<lambda>X pipeline. Inr 1),
      extract_context_subgraph = (\<lambda>h kg player_id opponent mm. (h, Inr sample_graph)),
      from_nx = sample_from_nx,
      named_temporary_file = (\<lambda>fs. Inr ''/tmp/tmpk3x9.html''),
      save_graph = (\<lambda>nt. Inr ''<html>graph</html>''),
      read_fault = (\<lambda>path. None),
      remove_fault = (\<lambda>path. None),
      html_fault = (\<lambda>html. None)\<rparr>"

text \<open>The same run with an empty roster for the season.\<close>

definition empty_roster_env :: env where
  "empty_roster_env = sample_env\<lparr>get_all_players := (\<lambda>season. Inr [])\<rparr>"

text \<open>The same run, except that reading the temporary file back fails.\<close>

definition read_failing_env :: env where
  "read_failing_env =
     sample_env\<lparr>read_fault :=
       (\<lambda>path. Some (Exn OtherException ''[Errno 5] Input/output error''
                       ''Traceback (most recent call last): OSError''))\<rparr>"

text \<open>The same run, except that the feature builder rejects the input.\<close>

definition bad_input_env :: env where
  "bad_input_env =
     sample_env\<lparr>prepare_input :=
       (\<lambda>player_name opponent season.
          Inl (Exn ValueError ''Not enough games for LeBron James''
                 ''Traceback (most recent call last): ValueError''))\<rparr>"

text \<open>
  A store in which the team node has a name that is present but empty, and a stand-in
  for the serializer that writes out, per node of the network, the label, colour and
  shape the page shows.
\<close>

definition blank_name_heap :: heap where
  "blank_name_heap =
     [[(''type'', PStr ''Player''), (''name'', PStr ''LeBron James'')],
      [(''type'', PStr ''Team''), (''name'', PStr [])],
      [(''relation'', PStr ''plays_for'')]]"

definition blank_name_world :: world where
  "blank_name_world = \<lparr>heap = blank_name_heap, files = [], events = []\<rparr>"

definition py_str :: "pyval \<Rightarrow> string" where
  "py_str v = (case v of PStr s \<Rightarrow> s | _ \<Rightarrow> py_repr v)"

definition sample_page :: "net \<Rightarrow> string" where
  "sample_page nt =
     concat (map (\<lambda>(n, d). ''<node label='' @ py_str (dict_get d ''label'') @
                            '' color='' @ py_str (dict_get d ''color'') @
                            '' shape='' @ py_str (dict_get d ''shape'') @ ''>'') nt)"

definition page_env :: env where
  "page_env = sample_env\<lparr>save_graph := (\<lambda>nt. Inr (sample_page nt))\<rparr>"

section \<open>Basic facts about the world and the store\<close>

lemma heap_emit [simp]: "heap (emit ev w) = heap w"
  by (simp add: emit_def)

lemma files_emit [simp]: "files (emit ev w) = files w"
  by (simp add: emit_def)

lemma events_emit [simp]: "events (emit ev w) = events w @ [ev]"
  by (simp add: emit_def)

lemma emit_update: "emit ev (w\<lparr>events := xs\<rparr>) = w\<lparr>events := xs @ [ev]\<rparr>"
  by (simp add: emit_def)

lemma map_of_dict_set: "map_of (dict_set d k v) k = Some v"
  by (simp add: dict_set_def update_conv')

lemma length_label_nodes: "length (label_nodes h ns) = length h"
  by (induction h ns rule: label_nodes.induct) (simp_all add: Let_def)

lemma label_nodes_other:
  "a \<notin> snd ` set ns \<Longrightarrow> label_nodes h ns ! a = h ! a"
  by (induction h ns rule: label_nodes.induct) (auto simp: Let_def)

lemma label_nodes_at:
  "distinct (map snd ns) \<Longrightarrow> (n, a) \<in> set ns \<Longrightarrow> a < length h \<Longrightarrow>
   label_nodes h ns ! a =
     dict_set (h ! a) ''label'' (case map_of (h ! a) ''name'' of Some nm \<Rightarrow> nm | None \<Rightarrow> n)"
proof (induction h ns rule: label_nodes.induct)
  case (1 h)
  then show ?case by simp
next
  case (2 h node b rest)
  show ?case
  proof (cases "(n, a) = (node, b)")
    case True
    then have eqs: "node = n" "b = a" by simp_all
    with 2 have "a \<notin> snd ` set rest" by auto
    with 2 show ?thesis unfolding eqs by (simp add: Let_def label_nodes_other)
  next
    case False
    with 2 have in_rest: "(n, a) \<in> set rest" and ne: "a \<noteq> b" by force+
    with 2 show ?thesis by (simp add: Let_def)
  qed
qed

lemma graph_copy_nodes:
  "graph_copy h g = (h', c) \<Longrightarrow>
   node_refs c = zip (map fst (node_refs g)) [length h ..< length h + length (node_refs g)]"
  by (auto simp: graph_copy_def Let_def)

lemma graph_copy_heap:
  "graph_copy h g = (h', c) \<Longrightarrow>
   h' = h @ map (\<lambda>(n, a). h ! a) (node_refs g) @ map (\<lambda>(u, v, a). h ! a) (edge_refs g)"
  by (auto simp: graph_copy_def Let_def)

lemma graph_copy_addrs:
  "graph_copy h g = (h', c) \<Longrightarrow> a \<in> set (graph_addrs c) \<Longrightarrow> length h \<le> a \<and> a < length h'"
  by (auto simp: graph_copy_def Let_def graph_addrs_def dest!: set_zip_rightD)

lemma working_copy_prefix:
  assumes "working_copy h g = (h2, c)"
  shows "length h \<le> length h2" and "\<And>a. a < length h \<Longrightarrow> h2 ! a = h ! a"
    and "\<And>a. a \<in> set (graph_addrs c) \<Longrightarrow> length h \<le> a"
proof -
  obtain h1 where gc: "graph_copy h g = (h1, c)" and h2: "h2 = label_nodes h1 (node_refs c)"
    using assms by (auto simp: working_copy_def split: prod.splits)
  have h1: "h1 = h @ map (\<lambda>(n, a). h ! a) (node_refs g) @ map (\<lambda>(u, v, a). h ! a) (edge_refs g)"
    using gc by (rule graph_copy_heap)
  show "length h \<le> length h2"
    by (simp add: h2 length_label_nodes h1)
  show "length h \<le> a" if "a \<in> set (graph_addrs c)" for a
    using graph_copy_addrs [OF gc that] by simp
  show "h2 ! a = h ! a" if "a < length h" for a
  proof -
    have "a \<notin> snd ` set (node_refs c)"
    proof
      assume "a \<in> snd ` set (node_refs c)"
      then have "a \<in> set (graph_addrs c)" by (auto simp: graph_addrs_def)
      from graph_copy_addrs [OF gc this] that show False by simp
    qed
    then have "h2 ! a = h1 ! a" by (simp add: h2 label_nodes_other)
    also have "\<dots> = h ! a" using that by (simp add: h1 nth_append)
    finally show ?thesis .
  qed
qed

lemma heap_render:
  "heap (snd (render en g w)) =
     fst (from_nx en (fst (working_copy (heap w) g)) (snd (working_copy (heap w) g)))"
  by (simp add: render_def Let_def split: prod.splits sum.splits option.splits)

lemma length_default_size: "length (default_size ns h) = length h"
  unfolding default_size_def by (induction ns arbitrary: h) (simp_all split: prod.splits)

lemma default_size_other: "a \<notin> snd ` set ns \<Longrightarrow> default_size ns h ! a = h ! a"
  unfolding default_size_def by (induction ns arbitrary: h) (auto split: prod.splits)

lemma length_default_width: "length (default_width es h) = length h"
  unfolding default_width_def by (induction es arbitrary: h) (simp_all split: prod.splits)

lemma default_width_other:
  "a \<notin> (\<lambda>(u, v, a). a) ` set es \<Longrightarrow> default_width es h ! a = h ! a"
  unfolding default_width_def by (induction es arbitrary: h) (auto split: prod.splits)

lemma sample_from_nx_frame: "writes_only g h (fst (sample_from_nx h g))"
proof -
  let ?h' = "default_width (edge_refs g) (default_size (node_refs g) h)"
  have len: "length ?h' = length h"
    by (simp add: length_default_width length_default_size)
  have "?h' ! a = h ! a" if "a \<notin> set (graph_addrs g)" for a
  proof -
    from that have "a \<notin> (\<lambda>(u, v, a). a) ` set (edge_refs g)" and "a \<notin> snd ` set (node_refs g)"
      by (auto simp: graph_addrs_def)
    then show ?thesis
      by (simp add: default_width_other default_size_other)
  qed
  then show ?thesis
    by (auto simp: writes_only_def sample_from_nx_def Let_def len list_all_iff)
qed

section \<open>The empty subgraph\<close>

text \<open>
  Claim C4. For a subgraph with zero nodes \<open>visualize_subgraph\<close> reports that there is no
  subgraph to display and does nothing else: the world it returns is the world it was
  given with the one warning added, so the store is as it was (no copy was allocated, no
  label or size written), no file was created (no serialization) and no HTML component
  was embedded.
\<close>

theorem visualize_subgraph_empty:
  "number_of_nodes subgraph = 0 \<Longrightarrow>
   visualize_subgraph en subgraph w =
     w\<lparr>events := events w @ [StWarning ''No subgraph available to display.'']\<rparr>"
  by (simp add: visualize_subgraph_def emit_def)

theorem visualize_subgraph_empty_witness:
  "number_of_nodes empty_graph = 0 \<and>
   visualize_subgraph sample_env empty_graph sample_world =
     \<lparr>heap = sample_heap, files = [],
      events = [StWarning ''No subgraph available to display.'']\<rparr>"
  using visualize_subgraph_empty [of empty_graph sample_env sample_world]
  by (simp add: empty_graph_def number_of_nodes_def sample_world_def)

section \<open>The caller's graph is left alone\<close>

text \<open>
  Claim C7. Rendering works on a copy. Provided PyVis writes only to dictionaries of
  the graph it is handed (\<open>writes_only\<close>), every dictionary that existed when
  \<open>visualize_subgraph\<close> was called has the same content when it returns, whatever
  happens in between and whether or not rendering fails. Those are in particular the
  node and edge attribute dictionaries of the caller's subgraph and of the knowledge
  graph it was taken from: the labels (and the sizes PyVis adds) go to dictionaries
  allocated by the copy.
\<close>

theorem caller_graph_untouched:
  assumes frame: "\<And>h g. writes_only g h (fst (from_nx en h g))"
  shows "take (length (heap w)) (heap (visualize_subgraph en subgraph w)) = heap w"
proof (cases "number_of_nodes subgraph = 0")
  case True
  then show ?thesis by (simp add: visualize_subgraph_def)
next
  case False
  obtain h2 c where wc: "working_copy (heap w) subgraph = (h2, c)"
    by (cases "working_copy (heap w) subgraph")
  define h3 where "h3 = fst (from_nx en h2 c)"
  obtain r w' where rn: "render en subgraph w = (r, w')"
    by (cases "render en subgraph w")
  have "heap w' = h3"
    using heap_render [of en subgraph w] by (simp add: rn wc h3_def)
  then have res: "heap (visualize_subgraph en subgraph w) = h3"
    using False by (cases r) (simp_all add: visualize_subgraph_def rn)
  have fr: "writes_only c h2 h3"
    unfolding h3_def by (rule frame)
  note pre = working_copy_prefix [OF wc]
  have len: "length (heap w) \<le> length h3"
    using fr pre(1) by (simp add: writes_only_def)
  have same: "h3 ! a = heap w ! a" if "a < length (heap w)" for a
  proof -
    have "a < length h2" using that pre(1) by simp
    moreover have "a \<notin> set (graph_addrs c)" using pre(3) [of a] that by auto
    ultimately have "h3 ! a = h2 ! a"
      using fr by (auto simp: writes_only_def list_all_iff)
    with pre(2) [OF that] show ?thesis by simp
  qed
  show ?thesis
    unfolding res by (rule nth_equalityI) (simp_all add: len same min_absorb2)
qed

theorem caller_graph_untouched_witness:
  "take 3 (heap (visualize_subgraph sample_env sample_graph sample_world)) = sample_heap \<and>
   length (heap (visualize_subgraph sample_env sample_graph sample_world)) = 6"
proof -
  have fr: "writes_only g h (fst (from_nx sample_env h g))" for g h
    by (simp add: sample_env_def sample_from_nx_frame)
  have "length (heap (visualize_subgraph sample_env sample_graph sample_world)) = 6"
    by (simp add: visualize_subgraph_def render_def working_copy_def graph_copy_def
        sample_env_def sample_from_nx_def default_size_def default_width_def
        add_node_options_def sample_graph_def sample_world_def
        sample_heap_def number_of_nodes_def Let_def style_node_def set_color_shape_def
        get_node_set_def dict_get_def dict_set_def read_file_def os_remove_def write_file_def
        emit_def)
  moreover have l3: "length sample_heap = 3"
    by (simp add: sample_heap_def)
  have hs: "heap sample_world = sample_heap"
    by (simp add: sample_world_def)
  have "take 3 (heap (visualize_subgraph sample_env sample_graph sample_world)) = sample_heap"
    using caller_graph_untouched [of sample_env sample_world sample_graph, OF fr]
    unfolding hs l3 .
  ultimately show ?thesis by simp
qed

section \<open>Styling by node type\<close>

lemma style_node_table:
  "style_node t n nt =
     (case spec_style t of Some (c, s) \<Rightarrow> set_color_shape nt n c s | None \<Rightarrow> Inr nt)"
  by (cases t) (simp_all add: style_node_def spec_style_def spec_style_table_def)

lemma set_color_shape_present:
  "map_of nt n = Some d \<Longrightarrow>
   \<exists>nt'. set_color_shape nt n c s = Inr nt' \<and>
         map_of nt' = (map_of nt)(n \<mapsto> dict_set (dict_set d ''color'' (PStr c)) ''shape'' (PStr s))"
  by (simp add: set_color_shape_def get_node_set_def update_conv')

lemma set_color_shape_Inr:
  "set_color_shape nt n c s = Inr nt' \<Longrightarrow>
   \<exists>d. map_of nt n = Some d \<and>
       map_of nt' = (map_of nt)(n \<mapsto> dict_set (dict_set d ''color'' (PStr c)) ''shape'' (PStr s))"
  by (auto simp: set_color_shape_def get_node_set_def update_conv' split: option.splits sum.splits)

lemma style_node_other:
  "style_node t n nt = Inr nt' \<Longrightarrow> m \<noteq> n \<Longrightarrow> map_of nt' m = map_of nt m"
  by (auto simp: style_node_table split: option.splits dest!: set_color_shape_Inr)

lemma style_nodes_other:
  "style_nodes h nt ns = Inr nt' \<Longrightarrow> m \<notin> fst ` set ns \<Longrightarrow> map_of nt' m = map_of nt m"
proof (induction h nt ns rule: style_nodes.induct)
  case (1 h nt)
  then show ?case by simp
next
  case (2 h nt node a rest)
  from "2.prems" obtain nt1 where
    s1: "style_node (dict_get (h ! a) ''type'') node nt = Inr nt1"
    and s2: "style_nodes h nt1 rest = Inr nt'"
    by (auto split: sum.splits)
  from "2.prems" have "m \<noteq> node" "m \<notin> fst ` set rest" by auto
  with "2.IH" [OF s1 s2] style_node_other [OF s1] show ?case by simp
qed

lemma style_nodes_follow_table:
  assumes "distinct (map fst ns)"
    and "\<forall>(n, a) \<in> set ns. spec_style (dict_get (h ! a) ''type'') \<noteq> None \<longrightarrow> map_of nt n \<noteq> None"
  shows "\<exists>nt'. style_nodes h nt ns = Inr nt' \<and>
           (\<forall>(n, a) \<in> set ns.
              case spec_style (dict_get (h ! a) ''type'') of
                Some (c, s) \<Rightarrow>
                  (\<exists>d. map_of nt n = Some d \<and>
                       map_of nt' n =
                         Some (dict_set (dict_set d ''color'' (PStr c)) ''shape'' (PStr s)))
              | None \<Rightarrow> map_of nt' n = map_of nt n)"
  using assms
proof (induction ns arbitrary: nt)
  case Nil
  then show ?case by simp
next
  case (Cons p rest)
  obtain node a where p: "p = (node, a)" by (cases p)
  let ?t = "dict_get (h ! a) ''type''"
  from Cons.prems p have fresh: "node \<notin> fst ` set rest" and dist: "distinct (map fst rest)"
    by auto
  have step: "\<exists>nt1. style_node ?t node nt = Inr nt1 \<and>
      (case spec_style ?t of
         Some (c, s) \<Rightarrow>
           (\<exists>d. map_of nt node = Some d \<and>
                map_of nt1 = (map_of nt)(node \<mapsto> dict_set (dict_set d ''color'' (PStr c)) ''shape'' (PStr s)))
       | None \<Rightarrow> nt1 = nt)"
  proof (cases "spec_style ?t")
    case None
    then show ?thesis by (simp add: style_node_table)
  next
    case (Some cs)
    obtain c s where cs: "cs = (c, s)" by (cases cs)
    from Cons.prems(2) p Some obtain d where d: "map_of nt node = Some d" by auto
    from set_color_shape_present [OF d, of c s] show ?thesis
      by (auto simp: style_node_table Some cs d)
  qed
  then obtain nt1 where s1: "style_node ?t node nt = Inr nt1"
    and eff: "case spec_style ?t of
         Some (c, s) \<Rightarrow>
           (\<exists>d. map_of nt node = Some d \<and>
                map_of nt1 = (map_of nt)(node \<mapsto> dict_set (dict_set d ''color'' (PStr c)) ''shape'' (PStr s)))
       | None \<Rightarrow> nt1 = nt"
    by blast
  have keep: "map_of nt1 m = map_of nt m" if "m \<noteq> node" for m
    using style_node_other [OF s1 that] .
  have pres: "\<forall>(n, b) \<in> set rest. spec_style (dict_get (h ! b) ''type'') \<noteq> None \<longrightarrow> map_of nt1 n \<noteq> None"
  proof (clarify)
    fix n b y
    assume nb: "(n, b) \<in> set rest" and ty: "spec_style (dict_get (h ! b) ''type'') = Some y"
    from nb fresh have "n \<noteq> node" by force
    moreover from Cons.prems(2) nb ty have "map_of nt n \<noteq> None" by auto
    ultimately show "\<exists>z. map_of nt1 n = Some z" by (simp add: keep)
  qed
  from Cons.IH [OF dist pres] obtain nt' where
    s2: "style_nodes h nt1 rest = Inr nt'"
    and tail: "\<forall>(n, b) \<in> set rest.
              case spec_style (dict_get (h ! b) ''type'') of
                Some (c, s) \<Rightarrow>
                  (\<exists>d. map_of nt1 n = Some d \<and>
                       map_of nt' n =
                         Some (dict_set (dict_set d ''color'' (PStr c)) ''shape'' (PStr s)))
              | None \<Rightarrow> map_of nt' n = map_of nt1 n"
    by blast
  have run: "style_nodes h nt (p # rest) = Inr nt'"
    by (simp add: p s1 s2)
  have head_kept: "map_of nt' node = map_of nt1 node"
    using style_nodes_other [OF s2 fresh] .
  have head: "case spec_style ?t of
                Some (c, s) \<Rightarrow>
                  (\<exists>d. map_of nt node = Some d \<and>
                       map_of nt' node =
                         Some (dict_set (dict_set d ''color'' (PStr c)) ''shape'' (PStr s)))
              | None \<Rightarrow> map_of nt' node = map_of nt node"
    using eff by (auto simp: head_kept split: option.splits)
  have rest: "case spec_style (dict_get (h ! b) ''type'') of
                Some (c, s) \<Rightarrow>
                  (\<exists>d. map_of nt n = Some d \<and>
                       map_of nt' n =
                         Some (dict_set (dict_set d ''color'' (PStr c)) ''shape'' (PStr s)))
              | None \<Rightarrow> map_of nt' n = map_of nt n"
    if nb: "(n, b) \<in> set rest" for n b
  proof -
    from nb fresh have "n \<noteq> node" by force
    then have "map_of nt1 n = map_of nt n" by (rule keep)
    with tail nb show ?thesis by (auto split: option.splits)
  qed
  from run head rest show ?case
    by (auto simp: p)
qed

lemma map_of_dict_set_other: "k' \<noteq> k \<Longrightarrow> map_of (dict_set d k v) k' = map_of d k'"
  by (simp add: dict_set_def update_conv')

lemma dict_get_dict_set: "dict_get (dict_set d k v) k' = (if k' = k then v else dict_get d k')"
  by (simp add: dict_get_def dict_set_def update_conv')

lemma style_node_keeps:
  assumes "style_node t node nt = Inr nt'" and "map_of nt n = Some d"
  shows "\<exists>d'. map_of nt' n = Some d' \<and> map_of d' ''label'' = map_of d ''label''"
proof (cases "spec_style t")
  case None
  with assms show ?thesis by (simp add: style_node_table)
next
  case (Some cs)
  obtain c s where cs: "cs = (c, s)" by (cases cs)
  from assms(1) Some cs have "set_color_shape nt node c s = Inr nt'"
    by (simp add: style_node_table)
  then obtain d0 where d0: "map_of nt node = Some d0"
    and upd: "map_of nt' = (map_of nt)(node \<mapsto> dict_set (dict_set d0 ''color'' (PStr c)) ''shape'' (PStr s))"
    by (auto dest: set_color_shape_Inr)
  show ?thesis
  proof (cases "n = node")
    case True
    with assms(2) d0 have "d0 = d" by simp
    with True upd show ?thesis by (simp add: map_of_dict_set_other)
  next
    case False
    with upd assms(2) show ?thesis by simp
  qed
qed

lemma style_node_total:
  "map_of nt node \<noteq> None \<Longrightarrow> \<exists>nt'. style_node t node nt = Inr nt'"
proof (cases "spec_style t")
  case None
  then show ?thesis by (simp add: style_node_table)
next
  case (Some cs)
  assume "map_of nt node \<noteq> None"
  then obtain d where d: "map_of nt node = Some d" by auto
  obtain c s where cs: "cs = (c, s)" by (cases cs)
  from set_color_shape_present [OF d, of c s] Some cs show ?thesis
    by (auto simp: style_node_table)
qed

lemma style_nodes_keep:
  assumes "list_all (\<lambda>(n, a). map_of nt n \<noteq> None) ns"
  shows "\<exists>nt'. style_nodes h nt ns = Inr nt' \<and>
           (\<forall>n d. map_of nt n = Some d \<longrightarrow>
                  (\<exists>d'. map_of nt' n = Some d' \<and> map_of d' ''label'' = map_of d ''label''))"
  using assms
proof (induction ns arbitrary: nt)
  case Nil
  then show ?case by simp
next
  case (Cons p rest)
  obtain node a where p: "p = (node, a)" by (cases p)
  from Cons.prems p have here: "map_of nt node \<noteq> None"
    and there: "list_all (\<lambda>(n, a). map_of nt n \<noteq> None) rest"
    by simp_all
  from style_node_total [OF here] obtain nt1 where
    s1: "style_node (dict_get (h ! a) ''type'') node nt = Inr nt1" by blast
  have keep1: "\<exists>d'. map_of nt1 n = Some d' \<and> map_of d' ''label'' = map_of d ''label''"
    if "map_of nt n = Some d" for n d
    using style_node_keeps [OF s1 that] .
  have "list_all (\<lambda>(n, a). map_of nt1 n \<noteq> None) rest"
    using there keep1 by (fastforce simp: list_all_iff)
  from Cons.IH [OF this] obtain nt' where
    s2: "style_nodes h nt1 rest = Inr nt'"
    and keep2: "\<forall>n d. map_of nt1 n = Some d \<longrightarrow>
                  (\<exists>d'. map_of nt' n = Some d' \<and> map_of d' ''label'' = map_of d ''label'')"
    by blast
  have "style_nodes h nt (p # rest) = Inr nt'"
    by (simp add: p s1 s2)
  moreover have "\<exists>d'. map_of nt' n = Some d' \<and> map_of d' ''label'' = map_of d ''label''"
    if "map_of nt n = Some d" for n d
  proof -
    from keep1 [OF that] obtain d1 where
      d1: "map_of nt1 n = Some d1" and l1: "map_of d1 ''label'' = map_of d ''label''" by blast
    from keep2 d1 obtain d' where "map_of nt' n = Some d'"
      and "map_of d' ''label'' = map_of d1 ''label''" by blast
    with l1 show ?thesis by simp
  qed
  ultimately show ?case by blast
qed

lemma working_copy_node:
  assumes wc: "working_copy h g = (h2, c)"
    and i: "i < length (node_refs g)"
    and at: "node_refs g ! i = (n, a)"
  shows "length (node_refs c) = length (node_refs g)"
    and "node_refs c ! i = (n, length h + i)"
    and "h2 ! (length h + i) =
           dict_set (h ! a) ''label'' (case map_of (h ! a) ''name'' of Some nm \<Rightarrow> nm | None \<Rightarrow> n)"
proof -
  obtain h1 where gc: "graph_copy h g = (h1, c)" and h2: "h2 = label_nodes h1 (node_refs c)"
    using wc by (auto simp: working_copy_def split: prod.splits)
  let ?ns = "node_refs g"
  have nodes: "node_refs c = zip (map fst ?ns) [length h ..< length h + length ?ns]"
    using gc by (rule graph_copy_nodes)
  have h1: "h1 = h @ map (\<lambda>(n, a). h ! a) ?ns @ map (\<lambda>(u, v, a). h ! a) (edge_refs g)"
    using gc by (rule graph_copy_heap)
  show len: "length (node_refs c) = length ?ns"
    by (simp add: nodes)
  show ci: "node_refs c ! i = (n, length h + i)"
    using i at by (simp add: nodes)
  have mem: "(n, length h + i) \<in> set (node_refs c)"
    using ci i len by (metis nth_mem)
  have dist: "distinct (map snd (node_refs c))"
    by (simp add: nodes)
  have lt: "length h + i < length h1"
    using i by (simp add: h1)
  have old: "h1 ! (length h + i) = h ! a"
    using i at by (simp add: h1 nth_append)
  show "h2 ! (length h + i) =
          dict_set (h ! a) ''label'' (case map_of (h ! a) ''name'' of Some nm \<Rightarrow> nm | None \<Rightarrow> n)"
    using label_nodes_at [OF dist mem lt] by (simp add: old h2)
qed

lemma working_copy_ids:
  "working_copy h g = (h2, c) \<Longrightarrow> map fst (node_refs c) = map fst (node_refs g)"
  by (auto simp: working_copy_def graph_copy_def Let_def split: prod.splits)

lemma render_publish:
  "working_copy (heap w) g = (h2, c) \<Longrightarrow> from_nx en h2 c = (h3, Inr nt) \<Longrightarrow>
   style_nodes h3 nt (node_refs c) = Inr nt' \<Longrightarrow>
   render en g w = publish en nt' (w\<lparr>heap := h3\<rparr>)"
  by (simp add: render_def publish_def Let_def)

text \<open>
  Claim C5. The styling of lines 71 to 90, as \<open>render\<close> applies it, realises the fixed
  table \<open>spec_style_table\<close>. Let the node identifiers of the caller's subgraph be
  distinct, and let PyVis have built, from the working copy, a network that holds
  every node and have left the node types alone. Then the styling loop does not raise:
  \<open>render\<close> goes on to serialize and show a network in which every node of the
  subgraph whose \<^verbatim>\<open>type\<close> is one of \<^verbatim>\<open>Player\<close>, \<^verbatim>\<open>Team\<close>, \<^verbatim>\<open>Game\<close>,
  \<^verbatim>\<open>Opponent_Team\<close>, \<^verbatim>\<open>Home_Away\<close>, \<^verbatim>\<open>Performance\<close> has exactly the colour
  and shape of the table written into its PyVis entry (blue ellipse, green box, red
  diamond, purple dot, orange triangle, yellow star), while the entry of every node
  whose type is missing or is any other value is what PyVis made it: the defaults
  stay.
\<close>

theorem node_styling_follows_table:
  assumes copy: "working_copy (heap w) subgraph = (h2, subgraph_copy)"
    and pv: "from_nx en h2 subgraph_copy = (h3, Inr nt)"
    and nodes: "pyvis_has_nodes subgraph_copy nt"
    and types: "keeps_type subgraph_copy h2 h3"
    and dist: "distinct (map fst (node_refs subgraph))"
  shows "\<exists>nt'. render en subgraph w = publish en nt' (w\<lparr>heap := h3\<rparr>) \<and>
           list_all
             (\<lambda>(n, a). case spec_style (dict_get (heap w ! a) ''type'') of
                          Some (c, s) \<Rightarrow>
                            (case map_of nt n of
                               None \<Rightarrow> False
                             | Some d \<Rightarrow>
                                 map_of nt' n =
                                   Some (dict_set (dict_set d ''color'' (PStr c)) ''shape''
                                           (PStr s)))
                        | None \<Rightarrow> map_of nt' n = map_of nt n)
             (node_refs subgraph)"
proof -
  let ?cs = "node_refs subgraph_copy"
  have ids: "map fst ?cs = map fst (node_refs subgraph)"
    using copy by (rule working_copy_ids)
  have distc: "distinct (map fst ?cs)"
    using dist by (simp add: ids)
  have present: "\<forall>(n, a) \<in> set ?cs.
      spec_style (dict_get (h3 ! a) ''type'') \<noteq> None \<longrightarrow> map_of nt n \<noteq> None"
    using nodes by (auto simp: pyvis_has_nodes_def list_all_iff)
  from style_nodes_follow_table [OF distc present] obtain nt' where
    run: "style_nodes h3 nt ?cs = Inr nt'"
    and styled: "\<forall>(n, a) \<in> set ?cs.
              case spec_style (dict_get (h3 ! a) ''type'') of
                Some (c, s) \<Rightarrow>
                  (\<exists>d. map_of nt n = Some d \<and>
                       map_of nt' n =
                         Some (dict_set (dict_set d ''color'' (PStr c)) ''shape'' (PStr s)))
              | None \<Rightarrow> map_of nt' n = map_of nt n"
    by blast
  have eq: "render en subgraph w = publish en nt' (w\<lparr>heap := h3\<rparr>)"
    using copy pv run by (rule render_publish)
  have "case spec_style (dict_get (heap w ! a) ''type'') of
          Some (c, s) \<Rightarrow>
            (case map_of nt n of
               None \<Rightarrow> False
             | Some d \<Rightarrow>
                 map_of nt' n = Some (dict_set (dict_set d ''color'' (PStr c)) ''shape'' (PStr s)))
        | None \<Rightarrow> map_of nt' n = map_of nt n"
    if mem: "(n, a) \<in> set (node_refs subgraph)" for n a
  proof -
    from mem obtain i where i: "i < length (node_refs subgraph)"
      and at: "node_refs subgraph ! i = (n, a)"
      by (auto simp: in_set_conv_nth)
    note wc = working_copy_node [OF copy i at]
    let ?a' = "length (heap w) + i"
    have memc: "(n, ?a') \<in> set ?cs"
      using wc(1,2) i by (metis nth_mem)
    from types memc have "dict_get (h3 ! ?a') ''type'' = dict_get (h2 ! ?a') ''type''"
      by (auto simp: keeps_type_def list_all_iff)
    also have "\<dots> = dict_get (heap w ! a) ''type''"
      by (simp add: wc(3) dict_get_dict_set)
    finally have ty: "dict_get (h3 ! ?a') ''type'' = dict_get (heap w ! a) ''type''" .
    from styled memc ty show ?thesis
      by (auto split: option.splits)
  qed
  then have "list_all
             (\<lambda>(n, a). case spec_style (dict_get (heap w ! a) ''type'') of
                          Some (c, s) \<Rightarrow>
                            (case map_of nt n of
                               None \<Rightarrow> False
                             | Some d \<Rightarrow>
                                 map_of nt' n =
                                   Some (dict_set (dict_set d ''color'' (PStr c)) ''shape''
                                           (PStr s)))
                        | None \<Rightarrow> map_of nt' n = map_of nt n)
             (node_refs subgraph)"
    by (auto simp: list_all_iff)
  with eq show ?thesis by blast
qed

theorem node_styling_follows_table_witness:
  "distinct (map fst (node_refs sample_graph)) \<and>
   spec_style (dict_get (heap sample_world ! 0) ''type'') = Some (''blue'', ''ellipse'') \<and>
   (\<exists>nt' w1.
      render sample_env sample_graph sample_world = publish sample_env nt' w1 \<and>
      map_of nt' (PInt 2544) =
        Some [(''color'', PStr ''blue''), (''type'', PStr ''Player''),
              (''name'', PStr ''LeBron James''), (''size'', PInt 10), (''id'', PInt 2544),
              (''label'', PStr ''LeBron James''), (''shape'', PStr ''ellipse'')] \<and>
      map_of nt' (PStr ''LAL'') =
        Some [(''color'', PStr ''green''), (''type'', PStr ''Team''), (''size'', PInt 10),
              (''id'', PStr ''LAL''), (''label'', PStr ''LAL''), (''shape'', PStr ''box'')])"
proof -
  let ?h2 = "[[(''type'', PStr ''Player''), (''name'', PStr ''LeBron James'')],
              [(''type'', PStr ''Team'')],
              [(''relation'', PStr ''plays_for'')],
              [(''type'', PStr ''Player''), (''name'', PStr ''LeBron James''),
               (''label'', PStr ''LeBron James'')],
              [(''type'', PStr ''Team''), (''label'', PStr ''LAL'')],
              [(''relation'', PStr ''plays_for'')]]"
  let ?c = "\<lparr>node_refs = [(PInt 2544, 3), (PStr ''LAL'', 4)],
             edge_refs = [(PInt 2544, PStr ''LAL'', 5)]\<rparr>"
  let ?h3 = "[[(''type'', PStr ''Player''), (''name'', PStr ''LeBron James'')],
              [(''type'', PStr ''Team'')],
              [(''relation'', PStr ''plays_for'')],
              [(''type'', PStr ''Player''), (''name'', PStr ''LeBron James''),
               (''label'', PStr ''LeBron James''), (''size'', PInt 10)],
              [(''type'', PStr ''Team''), (''label'', PStr ''LAL''), (''size'', PInt 10)],
              [(''relation'', PStr ''plays_for''), (''width'', PInt 1)]]"
  let ?nt = "[(PInt 2544,
               [(''color'', PStr ''#97c2fc''), (''type'', PStr ''Player''),
                (''name'', PStr ''LeBron James''), (''size'', PInt 10), (''id'', PInt 2544),
                (''label'', PStr ''LeBron James''), (''shape'', PStr ''dot'')]),
              (PStr ''LAL'',
               [(''color'', PStr ''#97c2fc''), (''type'', PStr ''Team''), (''size'', PInt 10),
                (''id'', PStr ''LAL''), (''label'', PStr ''LAL''), (''shape'', PStr ''dot'')])]"
  have copy: "working_copy (heap sample_world) sample_graph = (?h2, ?c)"
    by (simp add: working_copy_def graph_copy_def sample_world_def sample_heap_def
        sample_graph_def dict_set_def Let_def)
  have pv: "from_nx sample_env ?h2 ?c = (?h3, Inr ?nt)"
    by (simp add: sample_env_def sample_from_nx_def default_size_def default_width_def
        add_node_options_def dict_set_def dict_get_def Let_def)
  have nodes: "pyvis_has_nodes ?c ?nt"
    by (simp add: pyvis_has_nodes_def)
  have types: "keeps_type ?c ?h2 ?h3"
    by (simp add: keeps_type_def dict_get_def)
  have dist: "distinct (map fst (node_refs sample_graph))"
    by (simp add: sample_graph_def)
  have ty: "spec_style (dict_get (heap sample_world ! 0) ''type'') = Some (''blue'', ''ellipse'')"
    by (simp add: sample_world_def sample_heap_def dict_get_def spec_style_def
        spec_style_table_def)
  from node_styling_follows_table [OF copy pv nodes types dist] obtain nt' where
    eq: "render sample_env sample_graph sample_world =
           publish sample_env nt' (sample_world\<lparr>heap := ?h3\<rparr>)"
    and la: "list_all
             (\<lambda>(n, a). case spec_style (dict_get (heap sample_world ! a) ''type'') of
                          Some (c, s) \<Rightarrow>
                            (case map_of ?nt n of
                               None \<Rightarrow> False
                             | Some d \<Rightarrow>
                                 map_of nt' n =
                                   Some (dict_set (dict_set d ''color'' (PStr c)) ''shape''
                                           (PStr s)))
                        | None \<Rightarrow> map_of nt' n = map_of ?nt n)
             (node_refs sample_graph)"
    by blast
  from la have "map_of nt' (PInt 2544) =
        Some [(''color'', PStr ''blue''), (''type'', PStr ''Player''),
              (''name'', PStr ''LeBron James''), (''size'', PInt 10), (''id'', PInt 2544),
              (''label'', PStr ''LeBron James''), (''shape'', PStr ''ellipse'')]"
    and "map_of nt' (PStr ''LAL'') =
        Some [(''color'', PStr ''green''), (''type'', PStr ''Team''), (''size'', PInt 10),
              (''id'', PStr ''LAL''), (''label'', PStr ''LAL''), (''shape'', PStr ''box'')]"
    by (simp_all add: sample_graph_def sample_world_def sample_heap_def dict_get_def
        dict_set_def spec_style_def spec_style_table_def)
  with eq dist ty show ?thesis by blast
qed

section \<open>Labels on the working copy and on the page\<close>

text \<open>
  Claim C6, as amended. Take the \<open>i\<close>-th node of the subgraph handed to
  \<open>visualize_subgraph\<close>, with identifier \<open>n\<close> and attribute dictionary at address \<open>a\<close>.
  On the working copy that goes to PyVis the \<open>i\<close>-th node is the same node \<open>n\<close>, and
  the \<^verbatim>\<open>label\<close> the script has written on it is the node's \<^verbatim>\<open>name\<close> when the
  node has that attribute, and the identifier \<open>n\<close> otherwise. PyVis shows a node under
  its label only when the label is truthy, and under its identifier otherwise. So in
  the network that \<open>render\<close> goes on to serialize and show, the node is labelled with
  its \<^verbatim>\<open>name\<close> when the name is present and truthy, and with its identifier when the
  name is missing, \<^verbatim>\<open>None\<close>, empty or zero.
\<close>

theorem node_label_is_name_or_id:
  assumes copy: "working_copy (heap w) subgraph = (h2, subgraph_copy)"
    and pv: "from_nx en h2 subgraph_copy = (h3, Inr nt)"
    and labels: "pyvis_labels h2 subgraph_copy nt"
    and i: "i < length (node_refs subgraph)"
    and at: "node_refs subgraph ! i = (n, a)"
  shows "fst (node_refs subgraph_copy ! i) = n \<and>
         map_of (h2 ! snd (node_refs subgraph_copy ! i)) ''label'' =
           Some (case map_of (heap w ! a) ''name'' of Some nm \<Rightarrow> nm | None \<Rightarrow> n) \<and>
         (\<exists>nt'. render en subgraph w = publish en nt' (w\<lparr>heap := h3\<rparr>) \<and>
                (case map_of nt' n of
                   None \<Rightarrow> False
                 | Some d \<Rightarrow>
                     map_of d ''label'' =
                       Some (case map_of (heap w ! a) ''name'' of
                               Some nm \<Rightarrow> (if truthy nm then nm else n)
                             | None \<Rightarrow> n)))"
proof -
  let ?cs = "node_refs subgraph_copy"
  let ?a' = "length (heap w) + i"
  let ?label = "case map_of (heap w ! a) ''name'' of Some nm \<Rightarrow> nm | None \<Rightarrow> n"
  note wc = working_copy_node [OF copy i at]
  have handed: "map_of (h2 ! ?a') ''label'' = Some ?label"
    by (simp add: wc(3) map_of_dict_set)
  then have got: "dict_get (h2 ! ?a') ''label'' = ?label"
    by (simp add: dict_get_def)
  have memc: "(n, ?a') \<in> set ?cs"
    using wc(1,2) i by (metis nth_mem)
  with labels obtain d where d: "map_of nt n = Some d"
    and shown: "map_of d ''label'' = Some (if truthy ?label then ?label else n)"
    by (auto simp: pyvis_labels_def list_all_iff got split: option.splits)
  have "list_all (\<lambda>(n, a). map_of nt n \<noteq> None) ?cs"
    using labels by (auto simp: pyvis_labels_def list_all_iff split: option.splits)
  from style_nodes_keep [OF this, of h3] d obtain nt' d' where
    run: "style_nodes h3 nt ?cs = Inr nt'"
    and d': "map_of nt' n = Some d'" and same: "map_of d' ''label'' = map_of d ''label''"
    by blast
  have eq: "render en subgraph w = publish en nt' (w\<lparr>heap := h3\<rparr>)"
    using copy pv run by (rule render_publish)
  have "(if truthy ?label then ?label else n) =
          (case map_of (heap w ! a) ''name'' of
             Some nm \<Rightarrow> (if truthy nm then nm else n) | None \<Rightarrow> n)"
    by (simp split: option.splits)
  with shown same d' have "case map_of nt' n of
                   None \<Rightarrow> False
                 | Some d \<Rightarrow>
                     map_of d ''label'' =
                       Some (case map_of (heap w ! a) ''name'' of
                               Some nm \<Rightarrow> (if truthy nm then nm else n)
                             | None \<Rightarrow> n)"
    by simp
  with eq handed wc(2) show ?thesis by auto
qed

theorem node_label_is_name_or_id_witness:
  "1 < length (node_refs sample_graph) \<and>
   node_refs sample_graph ! 1 = (PStr ''LAL'', 1) \<and>
   map_of (heap blank_name_world ! 1) ''name'' = Some (PStr []) \<and>
   (\<exists>nt' w1.
      render page_env sample_graph blank_name_world = publish page_env nt' w1 \<and>
      (case map_of nt' (PStr ''LAL'') of
         None \<Rightarrow> False
       | Some d \<Rightarrow> map_of d ''label'' = Some (PStr ''LAL'')))"
proof -
  let ?h2 = "[[(''type'', PStr ''Player''), (''name'', PStr ''LeBron James'')],
              [(''type'', PStr ''Team''), (''name'', PStr [])],
              [(''relation'', PStr ''plays_for'')],
              [(''type'', PStr ''Player''), (''name'', PStr ''LeBron James''),
               (''label'', PStr ''LeBron James'')],
              [(''type'', PStr ''Team''), (''name'', PStr []), (''label'', PStr [])],
              [(''relation'', PStr ''plays_for'')]]"
  let ?c = "\<lparr>node_refs = [(PInt 2544, 3), (PStr ''LAL'', 4)],
             edge_refs = [(PInt 2544, PStr ''LAL'', 5)]\<rparr>"
  let ?h3 = "[[(''type'', PStr ''Player''), (''name'', PStr ''LeBron James'')],
              [(''type'', PStr ''Team''), (''name'', PStr [])],
              [(''relation'', PStr ''plays_for'')],
              [(''type'', PStr ''Player''), (''name'', PStr ''LeBron James''),
               (''label'', PStr ''LeBron James''), (''size'', PInt 10)],
              [(''type'', PStr ''Team''), (''name'', PStr []), (''label'', PStr []),
               (''size'', PInt 10)],
              [(''relation'', PStr ''plays_for''), (''width'', PInt 1)]]"
  let ?nt = "[(PInt 2544,
               [(''color'', PStr ''#97c2fc''), (''type'', PStr ''Player''),
                (''name'', PStr ''LeBron James''), (''size'', PInt 10), (''id'', PInt 2544),
                (''label'', PStr ''LeBron James''), (''shape'', PStr ''dot'')]),
              (PStr ''LAL'',
               [(''color'', PStr ''#97c2fc''), (''type'', PStr ''Team''), (''name'', PStr []),
                (''size'', PInt 10), (''id'', PStr ''LAL''), (''label'', PStr ''LAL''),
                (''shape'', PStr ''dot'')])]"
  have copy: "working_copy (heap blank_name_world) sample_graph = (?h2, ?c)"
    by (simp add: working_copy_def graph_copy_def blank_name_world_def blank_name_heap_def
        sample_graph_def dict_set_def Let_def)
  have pv: "from_nx page_env ?h2 ?c = (?h3, Inr ?nt)"
    by (simp add: page_env_def sample_env_def sample_from_nx_def default_size_def
        default_width_def add_node_options_def dict_set_def dict_get_def Let_def)
  have labels: "pyvis_labels ?h2 ?c ?nt"
    by (simp add: pyvis_labels_def dict_get_def)
  have i: "1 < length (node_refs sample_graph)"
    by (simp add: sample_graph_def)
  have at: "node_refs sample_graph ! 1 = (PStr ''LAL'', 1)"
    by (simp add: sample_graph_def)
  have nm: "map_of (heap blank_name_world ! 1) ''name'' = Some (PStr [])"
    by (simp add: blank_name_world_def blank_name_heap_def)
  from node_label_is_name_or_id [OF copy pv labels i at] obtain nt' where
    eq: "render page_env sample_graph blank_name_world =
           publish page_env nt' (blank_name_world\<lparr>heap := ?h3\<rparr>)"
    and shown: "case map_of nt' (PStr ''LAL'') of
         None \<Rightarrow> False
       | Some d \<Rightarrow>
           map_of d ''label'' =
             Some (case map_of (heap blank_name_world ! 1) ''name'' of
                     Some nm \<Rightarrow> (if truthy nm then nm else PStr ''LAL'')
                   | None \<Rightarrow> PStr ''LAL'')"
    by blast
  from shown have "case map_of nt' (PStr ''LAL'') of
         None \<Rightarrow> False
       | Some d \<Rightarrow> map_of d ''label'' = Some (PStr ''LAL'')"
    using nm by (cases "map_of nt' (PStr ''LAL'')") simp_all
  with eq have "\<exists>nt' w1.
      render page_env sample_graph blank_name_world = publish page_env nt' w1 \<and>
      (case map_of nt' (PStr ''LAL'') of
         None \<Rightarrow> False
       | Some d \<Rightarrow> map_of d ''label'' = Some (PStr ''LAL''))"
    by blast
  with i at nm show ?thesis by blast
qed

text \<open>
  As claim C6 was first worded (the label used for display is the \<^verbatim>\<open>name\<close> whenever
  that attribute is present) it fails for a name that is present but empty. In the run
  below the team node \<^verbatim>\<open>LAL\<close> has the name \<^verbatim>\<open>''\<close>; the script writes that empty
  label on the copy, PyVis falls back to the identifier, and the page shows the node
  as \<^verbatim>\<open>LAL\<close>.
\<close>

theorem blank_name_shows_identifier:
  "node_refs sample_graph ! 1 = (PStr ''LAL'', 1) \<and>
   map_of (heap blank_name_world ! 1) ''name'' = Some (PStr []) \<and>
   events (visualize_subgraph page_env sample_graph blank_name_world) =
     [ComponentsHtml
        ''<node label=LeBron James color=blue shape=ellipse><node label=LAL color=green shape=box>'']"
  by (simp add: visualize_subgraph_def render_def working_copy_def graph_copy_def
        page_env_def sample_env_def sample_from_nx_def default_size_def default_width_def
        add_node_options_def sample_page_def py_str_def
        sample_graph_def blank_name_world_def blank_name_heap_def number_of_nodes_def Let_def
        style_node_def set_color_shape_def get_node_set_def dict_get_def dict_set_def
        read_file_def os_remove_def write_file_def emit_def)

section \<open>The temporary file\<close>

text \<open>
  Claim C1 says that the temporary HTML file is removed before \<open>visualize_subgraph\<close>
  returns on every path. The call to \<^verbatim>\<open>os.remove\<close> stands inside the \<^verbatim>\<open>try\<close>,
  after the file is read back, and there is no \<^verbatim>\<open>finally\<close>: in the run below PyVis
  has written the file, reading it back raises, the handler logs and reports the error,
  and the file is still there when the function returns.
\<close>

theorem temporary_file_left_when_read_fails:
  "files sample_world = [] \<and>
   files (visualize_subgraph read_failing_env sample_graph sample_world) =
     [(''/tmp/tmpk3x9.html'', ''<html>graph</html>'')] \<and>
   events (visualize_subgraph read_failing_env sample_graph sample_world) =
     [LogError (''Error visualizing subgraph: [Errno 5] Input/output error'' @ [CHR 0x0A] @
                ''Traceback (most recent call last): OSError''),
      StError ''Error visualizing the Knowledge Graph subgraph.'']"
  by (simp add: visualize_subgraph_def render_def working_copy_def graph_copy_def
        read_failing_env_def sample_env_def sample_from_nx_def default_size_def
        default_width_def add_node_options_def
        sample_graph_def sample_world_def sample_heap_def number_of_nodes_def Let_def
        style_node_def set_color_shape_def get_node_set_def dict_get_def dict_set_def
        read_file_def os_remove_def write_file_def emit_def)

section \<open>The context handed to the explanation generator\<close>

lemma relationships_edges:
  "relationships h es = Inr rs \<Longrightarrow>
   map (\<lambda>r. (source r, target r)) rs = map (\<lambda>(u, v, a). (u, v)) es"
  by (induction h es arbitrary: rs rule: relationships.induct)
     (auto split: sum.splits)

lemma predict_hands_context:
  assumes "prepare_input en player_name opponent season = Inr X"
    and "predict_regression en X (regressor_pipeline mm) = Inr reg_pred"
    and "predict_classification en X (classifier_pipeline mm) = Inr clf_pred"
    and "extract_context_subgraph en (heap w) (KG mm) player_id opponent mm = (h, Inr subgraph)"
    and "get_player_team mm player_id = Inr player_team_abbr"
    and "relationships h (edge_refs subgraph) = Inr rs"
  shows "predict en mm season player_name player_id opponent w =
           explain_and_render en mm player_name opponent
             \<lparr>points = reg_pred, exceeds_threshold = (clf_pred \<noteq> 0)\<rparr>
             \<lparr>Player = player_name,
              Player_Team = (if truthy player_team_abbr then player_team_abbr
                             else PStr ''Unknown''),
              Opponent = opponent,
              Relationships = rs\<rparr>
             subgraph
             (w\<lparr>heap := h,
                events := events w @
                  [Invoked PrepareInput, Invoked PredictRegression,
                   Invoked PredictClassification,
                   StWrite (''**Predicted Points:** '' @ format_2f reg_pred),
                   StWrite (''**Will Exceed Threshold:** '' @
                            (if clf_pred = 1 then ''Yes'' else ''No'')),
                   Invoked ExtractContextSubgraph, Invoked GetPlayerTeam]\<rparr>)"
  using assms
  by (simp add: predict_def explain_and_render_def build_context_info_def Let_def emit_def)

text \<open>
  Claim C3. Take a run of \<open>predict\<close> that gets as far as the context: features are
  built, both pipelines answer, \<^verbatim>\<open>extract_context_subgraph\<close> returns a subgraph, the
  team lookup returns, and every edge of that subgraph carries a \<^verbatim>\<open>relation\<close>. Let
  the extracted subgraph be a NetworkX graph, so that both ends of each of its edges are
  among its nodes (\<open>nx_closed\<close>). Then the context the explanation generator is handed
  has as its \<^verbatim>\<open>Relationships\<close> the edges of that same extracted subgraph, end for end
  and in the order of \<^verbatim>\<open>subgraph.edges(data=True)\<close>, and so the source and the target
  of every triple are nodes of it. It is also the subgraph that is rendered afterwards.
\<close>

theorem relationships_reference_subgraph_nodes:
  assumes "prepare_input en player_name opponent season = Inr X"
    and "predict_regression en X (regressor_pipeline mm) = Inr reg_pred"
    and "predict_classification en X (classifier_pipeline mm) = Inr clf_pred"
    and "extract_context_subgraph en (heap w) (KG mm) player_id opponent mm = (h, Inr subgraph)"
    and closed: "nx_closed subgraph"
    and "get_player_team mm player_id = Inr player_team_abbr"
    and rel: "relationships h (edge_refs subgraph) = Inr rs"
  shows "\<exists>context_info.
            predict en mm season player_name player_id opponent w =
              explain_and_render en mm player_name opponent
                \<lparr>points = reg_pred, exceeds_threshold = (clf_pred \<noteq> 0)\<rparr>
                context_info subgraph
                (w\<lparr>heap := h,
                   events := events w @
                     [Invoked PrepareInput, Invoked PredictRegression,
                      Invoked PredictClassification,
                      StWrite (''**Predicted Points:** '' @ format_2f reg_pred),
                      StWrite (''**Will Exceed Threshold:** '' @
                               (if clf_pred = 1 then ''Yes'' else ''No'')),
                      Invoked ExtractContextSubgraph, Invoked GetPlayerTeam]\<rparr>) \<and>
            Relationships context_info = rs \<and>
            list_all (\<lambda>r. source r \<in> fst ` set (node_refs subgraph) \<and>
                           target r \<in> fst ` set (node_refs subgraph))
              (Relationships context_info) \<and>
            map (\<lambda>r. (source r, target r)) (Relationships context_info) =
              map (\<lambda>(u, v, a). (u, v)) (edge_refs subgraph)"
proof -
  let ?ci = "\<lparr>Player = player_name,
              Player_Team = (if truthy player_team_abbr then player_team_abbr
                             else PStr ''Unknown''),
              Opponent = opponent,
              Relationships = rs\<rparr>"
  note eq = predict_hands_context [OF assms(1-4) assms(6-7)]
  have ends: "map (\<lambda>r. (source r, target r)) rs = map (\<lambda>(u, v, a). (u, v)) (edge_refs subgraph)"
    using rel by (rule relationships_edges)
  have "source r \<in> fst ` set (node_refs subgraph) \<and> target r \<in> fst ` set (node_refs subgraph)"
    if "r \<in> set rs" for r
  proof -
    from that have "(source r, target r) \<in> set (map (\<lambda>r. (source r, target r)) rs)"
      by force
    then obtain a where "(source r, target r, a) \<in> set (edge_refs subgraph)"
      unfolding ends by auto
    with closed show ?thesis
      by (auto simp: nx_closed_def list_all_iff)
  qed
  then have "list_all (\<lambda>r. source r \<in> fst ` set (node_refs subgraph) \<and>
                           target r \<in> fst ` set (node_refs subgraph)) rs"
    by (simp add: list_all_iff)
  with eq ends show ?thesis by (intro exI [of _ ?ci]) simp
qed

theorem relationships_reference_subgraph_nodes_witness:
  "nx_closed sample_graph \<and>
   extract_context_subgraph sample_env (heap sample_world) (KG sample_manager) (PInt 2544) ''BOS''
     sample_manager = (sample_heap, Inr sample_graph) \<and>
   (\<exists>context_info w7.
      predict sample_env sample_manager ''2023-24'' ''LeBron James'' (PInt 2544) ''BOS''
        sample_world =
      explain_and_render sample_env sample_manager ''LeBron James'' ''BOS''
        \<lparr>points = float_28_4, exceeds_threshold = True\<rparr> context_info sample_graph w7 \<and>
      Relationships context_info =
        [\<lparr>source = PInt 2544, target = PStr ''LAL'', relation = PStr ''plays_for''\<rparr>] \<and>
      list_all (\<lambda>r. source r \<in> fst ` set (node_refs sample_graph) \<and>
                     target r \<in> fst ` set (node_refs sample_graph))
        (Relationships context_info))"
proof -
  let ?rs = "[\<lparr>source = PInt 2544, target = PStr ''LAL'', relation = PStr ''plays_for''\<rparr>]"
  have a: "prepare_input sample_env ''LeBron James'' ''BOS'' ''2023-24'' = Inr [1, 0]"
    by (simp add: sample_env_def)
  have b: "predict_regression sample_env [1, 0] (regressor_pipeline sample_manager) = Inr float_28_4"
    by (simp add: sample_env_def)
  have c: "predict_classification sample_env [1, 0] (classifier_pipeline sample_manager) = Inr 1"
    by (simp add: sample_env_def)
  have d: "extract_context_subgraph sample_env (heap sample_world) (KG sample_manager) (PInt 2544)
             ''BOS'' sample_manager = (sample_heap, Inr sample_graph)"
    by (simp add: sample_env_def sample_world_def)
  have cl: "nx_closed sample_graph"
    by (simp add: nx_closed_def sample_graph_def)
  have e: "get_player_team sample_manager (PInt 2544) = Inr (PStr ''LAL'')"
    by (simp add: sample_manager_def)
  have f: "relationships sample_heap (edge_refs sample_graph) = Inr ?rs"
    by (simp add: sample_graph_def sample_heap_def dict_item_def)
  from relationships_reference_subgraph_nodes [OF a b c d cl e f]
  have "\<exists>context_info w7.
      predict sample_env sample_manager ''2023-24'' ''LeBron James'' (PInt 2544) ''BOS''
        sample_world =
      explain_and_render sample_env sample_manager ''LeBron James'' ''BOS''
        \<lparr>points = float_28_4, exceeds_threshold = True\<rparr> context_info sample_graph w7 \<and>
      Relationships context_info = ?rs \<and>
      list_all (\<lambda>r. source r \<in> fst ` set (node_refs sample_graph) \<and>
                     target r \<in> fst ` set (node_refs sample_graph))
        (Relationships context_info)"
    by auto
  with cl d show ?thesis by simp
qed

text \<open>
  Claim C10. In a run of \<open>predict\<close> that gets as far as the context, the context the
  explanation generator is handed has, as its \<^verbatim>\<open>Player_Team\<close>, the sentinel
  \<^verbatim>\<open>'Unknown'\<close> whenever what \<^verbatim>\<open>model_manager.get_player_team(player_id)\<close>
  returned (line 174) is falsy, and that very result whenever it is truthy. \<^verbatim>\<open>None\<close>
  and the empty string are both falsy; every non-empty string is truthy and so is
  passed through unchanged. The other three fields are the player name, the opponent
  and the relationships of the extracted subgraph.
\<close>

theorem player_team_unknown_when_falsy:
  assumes "prepare_input en player_name opponent season = Inr X"
    and "predict_regression en X (regressor_pipeline mm) = Inr reg_pred"
    and "predict_classification en X (classifier_pipeline mm) = Inr clf_pred"
    and "extract_context_subgraph en (heap w) (KG mm) player_id opponent mm = (h, Inr subgraph)"
    and "get_player_team mm player_id = Inr player_team_abbr"
    and "relationships h (edge_refs subgraph) = Inr rs"
  shows "(\<exists>context_info.
            predict en mm season player_name player_id opponent w =
              explain_and_render en mm player_name opponent
                \<lparr>points = reg_pred, exceeds_threshold = (clf_pred \<noteq> 0)\<rparr>
                context_info subgraph
                (w\<lparr>heap := h,
                   events := events w @
                     [Invoked PrepareInput, Invoked PredictRegression,
                      Invoked PredictClassification,
                      StWrite (''**Predicted Points:** '' @ format_2f reg_pred),
                      StWrite (''**Will Exceed Threshold:** '' @
                               (if clf_pred = 1 then ''Yes'' else ''No'')),
                      Invoked ExtractContextSubgraph, Invoked GetPlayerTeam]\<rparr>) \<and>
            Player context_info = player_name \<and>
            Opponent context_info = opponent \<and>
            Relationships context_info = rs \<and>
            (\<not> truthy player_team_abbr \<longrightarrow> Player_Team context_info = PStr ''Unknown'') \<and>
            (truthy player_team_abbr \<longrightarrow> Player_Team context_info = player_team_abbr)) \<and>
         \<not> truthy PNone \<and> \<not> truthy (PStr []) \<and> (\<forall>s. s \<noteq> [] \<longrightarrow> truthy (PStr s))"
proof -
  let ?ci = "\<lparr>Player = player_name,
              Player_Team = (if truthy player_team_abbr then player_team_abbr
                             else PStr ''Unknown''),
              Opponent = opponent,
              Relationships = rs\<rparr>"
  note eq = predict_hands_context [OF assms]
  have "Player ?ci = player_name \<and> Opponent ?ci = opponent \<and> Relationships ?ci = rs \<and>
        (\<not> truthy player_team_abbr \<longrightarrow> Player_Team ?ci = PStr ''Unknown'') \<and>
        (truthy player_team_abbr \<longrightarrow> Player_Team ?ci = player_team_abbr)"
    by simp
  with eq show ?thesis by (intro conjI exI [of _ ?ci]) simp_all
qed

theorem player_team_unknown_when_falsy_witness:
  "get_player_team (sample_manager\<lparr>get_player_team := (\<lambda>player_id. Inr (PStr []))\<rparr>) (PInt 2544) =
     Inr (PStr []) \<and>
   \<not> truthy (PStr []) \<and>
   (\<exists>context_info w7.
      predict sample_env (sample_manager\<lparr>get_player_team := (\<lambda>player_id. Inr (PStr []))\<rparr>)
        ''2023-24'' ''LeBron James'' (PInt 2544) ''BOS'' sample_world =
      explain_and_render sample_env
        (sample_manager\<lparr>get_player_team := (\<lambda>player_id. Inr (PStr []))\<rparr>)
        ''LeBron James'' ''BOS'' \<lparr>points = float_28_4, exceeds_threshold = True\<rparr>
        context_info sample_graph w7 \<and>
      Player_Team context_info = PStr ''Unknown'')"
proof -
  let ?mm = "sample_manager\<lparr>get_player_team := (\<lambda>player_id. Inr (PStr []))\<rparr>"
  let ?rs = "[\<lparr>source = PInt 2544, target = PStr ''LAL'', relation = PStr ''plays_for''\<rparr>]"
  have a: "prepare_input sample_env ''LeBron James'' ''BOS'' ''2023-24'' = Inr [1, 0]"
    by (simp add: sample_env_def)
  have b: "predict_regression sample_env [1, 0] (regressor_pipeline ?mm) = Inr float_28_4"
    by (simp add: sample_env_def)
  have c: "predict_classification sample_env [1, 0] (classifier_pipeline ?mm) = Inr 1"
    by (simp add: sample_env_def)
  have d: "extract_context_subgraph sample_env (heap sample_world) (KG ?mm) (PInt 2544) ''BOS'' ?mm =
             (sample_heap, Inr sample_graph)"
    by (simp add: sample_env_def sample_world_def)
  have e: "get_player_team ?mm (PInt 2544) = Inr (PStr [])"
    by simp
  have f: "relationships sample_heap (edge_refs sample_graph) = Inr ?rs"
    by (simp add: sample_graph_def sample_heap_def dict_item_def)
  from player_team_unknown_when_falsy [OF a b c d e f]
  obtain context_info where
    "predict sample_env ?mm ''2023-24'' ''LeBron James'' (PInt 2544) ''BOS'' sample_world =
      explain_and_render sample_env ?mm ''LeBron James'' ''BOS''
        \<lparr>points = float_28_4, exceeds_threshold = ((1::int) \<noteq> 0)\<rparr> context_info sample_graph
        (sample_world\<lparr>heap := sample_heap,
                   events := events sample_world @
                     [Invoked PrepareInput, Invoked PredictRegression,
                      Invoked PredictClassification,
                      StWrite (''**Predicted Points:** '' @ format_2f float_28_4),
                      StWrite (''**Will Exceed Threshold:** '' @
                               (if (1::int) = 1 then ''Yes'' else ''No'')),
                      Invoked ExtractContextSubgraph, Invoked GetPlayerTeam]\<rparr>)"
    and "Player_Team context_info = PStr ''Unknown''"
    by auto
  then have "\<exists>context_info w7.
      predict sample_env ?mm ''2023-24'' ''LeBron James'' (PInt 2544) ''BOS'' sample_world =
      explain_and_render sample_env ?mm
        ''LeBron James'' ''BOS'' \<lparr>points = float_28_4, exceeds_threshold = True\<rparr>
        context_info sample_graph w7 \<and>
      Player_Team context_info = PStr ''Unknown''"
    by auto
  with e show ?thesis by simp
qed

section \<open>Runs of \<^verbatim>\<open>main\<close>\<close>

lemma format_float_28_4: "format_2f float_28_4 = ''28.40''"
  by code_simp

lemma load_models_ok:
  "ModelManager en s = Inr m0 \<Longrightarrow> mm_load_models en m0 = Inr m1 \<Longrightarrow>
   build_knowledge_graph en m1 = Inr mm \<Longrightarrow>
   load_models en s w =
     (Inr mm, w\<lparr>events := events w @ [Invoked NewModelManager, Invoked ManagerLoadModels,
                                        Invoked BuildKnowledgeGraph]\<rparr>)"
  by (simp add: load_models_def load_models_body_def emit_def)

lemma load_models_events:
  "\<exists>evs. events (snd (load_models en s w)) = events w @ evs \<and> list_all (\<lambda>ev. \<not> later_stage ev) evs"
  by (simp add: load_models_def load_models_body_def Let_def split: sum.splits)

lemma events_render:
  "render en g w = (r, w') \<Longrightarrow>
   events w' = events w \<or> (\<exists>html. events w' = events w @ [ComponentsHtml html])"
  apply (simp add: render_def Let_def split: prod.splits sum.splits option.splits)
  apply auto
  done

lemma prefix_events_visualize:
  assumes "prefix xs (events w)"
  shows "prefix xs (events (visualize_subgraph en g w))"
proof (cases "number_of_nodes g = 0")
  case True
  with assms show ?thesis by (simp add: visualize_subgraph_def)
next
  case False
  obtain r w' where rn: "render en g w = (r, w')" by (cases "render en g w")
  from events_render [OF rn] have "prefix (events w) (events w')"
    by (elim disjE exE) simp_all
  with assms have "prefix xs (events w')"
    by (rule prefix_order.trans)
  then show ?thesis using False
    by (cases r) (simp_all add: visualize_subgraph_def rn)
qed

lemma prefix_events_handlers:
  "prefix xs (events (snd r)) \<Longrightarrow> prefix xs (events (predict_handlers r))"
proof -
  assume p: "prefix xs (events (snd r))"
  obtain e w where r: "r = (e, w)" by (cases r)
  show ?thesis
  proof (cases e)
    case None
    with p r show ?thesis by (simp add: predict_handlers_def)
  next
    case (Some x)
    with p r show ?thesis by (simp add: predict_handlers_def)
  qed
qed

lemma prefix_events_predict:
  assumes "prepare_input en player_name opponent season = Inr X"
    and "predict_regression en X (regressor_pipeline mm) = Inr reg_pred"
    and "predict_classification en X (classifier_pipeline mm) = Inr clf_pred"
  shows "prefix (events w @
           [Invoked PrepareInput, Invoked PredictRegression, Invoked PredictClassification,
            StWrite (''**Predicted Points:** '' @ format_2f reg_pred),
            StWrite (''**Will Exceed Threshold:** '' @ (if clf_pred = 1 then ''Yes'' else ''No''))])
          (events (snd (predict en mm season player_name player_id opponent w)))"
  using assms
  by (simp add: predict_def Let_def prefix_events_visualize split: prod.splits sum.splits)

lemma main_reaches_predict:
  assumes load: "ModelManager en (st_season en) = Inr m0" "mm_load_models en m0 = Inr m1"
      "build_knowledge_graph en m1 = Inr mm"
    and name: "st_player_name en \<noteq> []"
    and roster: "get_all_players en (st_season en) = Inr players_df" "players_df \<noteq> []"
    and pid: "get_player_id en (st_player_name en) players_df = Inr player_id"
      "player_id \<noteq> PNone"
    and teams: "get_team_data en = Inr all_teams" "all_teams \<noteq> []"
    and click: "st_predict en"
  shows "main en (w\<lparr>events := xs\<rparr>) =
     (None, predict_handlers
        (predict en mm (st_season en) (st_player_name en) player_id
           (st_opponent en (abbreviation_column all_teams))
           (w\<lparr>events := xs @
              [StTitle ''NBA Player Performance Prediction'',
               StSelectbox ''Select Season:'',
               Invoked NewModelManager, Invoked ManagerLoadModels, Invoked BuildKnowledgeGraph,
               StTextInput ''Enter Player Name (e.g., LeBron James)'',
               Invoked GetAllPlayers, Invoked GetPlayerId, Invoked GetTeamData,
               StSelectbox ''Select Opponent Team'',
               StHeader (''Predict Performance for '' @ st_player_name en @ '' against '' @
                         st_opponent en (abbreviation_column all_teams)),
               StButton ''Predict'']\<rparr>)))"
  using name roster pid teams click
  by (simp add: main_def Let_def load_models_ok [OF load] emit_update)

text \<open>
  Claim C8. When the roster of the selected season is empty, no run of \<open>main\<close> produces
  an event of feature building or of any later stage: \<^verbatim>\<open>prepare_input\<close> is not
  invoked, nor are prediction, extraction, the team lookup or the explanation, and
  nothing is written or rendered. When moreover the models load and a player name was
  entered, so that the roster is consulted at all, the run is exactly this: the title,
  the season selector, the three loading steps, the name input, the roster query, the
  message that no player data is available for the season, and then \<open>main\<close> returns.
\<close>

theorem empty_roster_halts:
  assumes roster: "get_all_players en (st_season en) = Inr []"
  shows "list_all (\<lambda>ev. \<not> later_stage ev) (new_events w (snd (main en w))) \<and>
         (\<forall>m0 m1 mm.
            ModelManager en (st_season en) = Inr m0 \<and> mm_load_models en m0 = Inr m1 \<and>
            build_knowledge_graph en m1 = Inr mm \<and> st_player_name en \<noteq> [] \<longrightarrow>
            main en w =
              (None,
               w\<lparr>events := events w @
                  [StTitle ''NBA Player Performance Prediction'',
                   StSelectbox ''Select Season:'',
                   Invoked NewModelManager, Invoked ManagerLoadModels,
                   Invoked BuildKnowledgeGraph,
                   StTextInput ''Enter Player Name (e.g., LeBron James)'',
                   Invoked GetAllPlayers,
                   StError (''No player data available for season '' @ st_season en @ ''.'')]\<rparr>))"
proof (intro conjI allI impI)
  let ?w2 = "emit (StSelectbox ''Select Season:'')
               (emit (StTitle ''NBA Player Performance Prediction'') w)"
  obtain r w3 where lm: "load_models en (st_season en) ?w2 = (r, w3)"
    by (cases "load_models en (st_season en) ?w2")
  from load_models_events [of en "st_season en" ?w2] obtain evs where
    "events (snd (load_models en (st_season en) ?w2)) = events ?w2 @ evs"
    and ok: "list_all (\<lambda>ev. \<not> later_stage ev) evs"
    by blast
  then have evs: "events w3 = events w @ [StTitle ''NBA Player Performance Prediction'',
                                  StSelectbox ''Select Season:''] @ evs"
    by (simp add: lm)
  have m: "main en w =
    (case r of Inl e \<Rightarrow>
          (if cls e = FileNotFoundError
           then (None, emit (StError (''Model file missing: '' @ msg e)) w3)
           else (None, emit (StError (''An unexpected error occurred while loading models: ''
                                       @ msg e)) w3))
     | Inr mm \<Rightarrow>
       (if st_player_name en \<noteq> [] then
          (None, emit (StError (''No player data available for season '' @ st_season en @ ''.''))
             (emit (Invoked GetAllPlayers)
                (emit (StTextInput ''Enter Player Name (e.g., LeBron James)'') w3)))
        else (None, emit (StInfo (''Please enter a player'' @ [CHR 0x27]
                             @ ''s name to begin prediction.''))
                      (emit (StTextInput ''Enter Player Name (e.g., LeBron James)'') w3))))"
    unfolding main_def Let_def lm using roster by (simp split: sum.splits)
  show "list_all (\<lambda>ev. \<not> later_stage ev) (new_events w (snd (main en w)))"
    unfolding m new_events_def using ok
    by (cases r) (simp_all add: evs)
next
  fix m0 m1 mm
  assume path: "ModelManager en (st_season en) = Inr m0 \<and> mm_load_models en m0 = Inr m1 \<and>
            build_knowledge_graph en m1 = Inr mm \<and> st_player_name en \<noteq> []"
  then have a: "ModelManager en (st_season en) = Inr m0" and b: "mm_load_models en m0 = Inr m1"
    and c: "build_knowledge_graph en m1 = Inr mm" and d: "st_player_name en \<noteq> []"
    by simp_all
  have "main en (w\<lparr>events := events w\<rparr>) =
              (None,
               w\<lparr>events := events w @
                  [StTitle ''NBA Player Performance Prediction'',
                   StSelectbox ''Select Season:'',
                   Invoked NewModelManager, Invoked ManagerLoadModels,
                   Invoked BuildKnowledgeGraph,
                   StTextInput ''Enter Player Name (e.g., LeBron James)'',
                   Invoked GetAllPlayers,
                   StError (''No player data available for season '' @ st_season en @ ''.'')]\<rparr>)"
    using roster d by (simp add: main_def Let_def load_models_ok [OF a b c] emit_update)
  then show "main en w =
              (None,
               w\<lparr>events := events w @
                  [StTitle ''NBA Player Performance Prediction'',
                   StSelectbox ''Select Season:'',
                   Invoked NewModelManager, Invoked ManagerLoadModels,
                   Invoked BuildKnowledgeGraph,
                   StTextInput ''Enter Player Name (e.g., LeBron James)'',
                   Invoked GetAllPlayers,
                   StError (''No player data available for season '' @ st_season en @ ''.'')]\<rparr>)"
    by simp
qed

theorem empty_roster_halts_witness:
  "get_all_players empty_roster_env (st_season empty_roster_env) = Inr [] \<and>
   list_all (\<lambda>ev. \<not> later_stage ev)
     (new_events sample_world (snd (main empty_roster_env sample_world))) \<and>
   main empty_roster_env sample_world =
     (None,
      \<lparr>heap = sample_heap, files = [],
       events = [StTitle ''NBA Player Performance Prediction'',
                 StSelectbox ''Select Season:'',
                 Invoked NewModelManager, Invoked ManagerLoadModels,
                 Invoked BuildKnowledgeGraph,
                 StTextInput ''Enter Player Name (e.g., LeBron James)'',
                 Invoked GetAllPlayers,
                 StError ''No player data available for season 2023-24.'']\<rparr>)"
proof -
  have r: "get_all_players empty_roster_env (st_season empty_roster_env) = Inr []"
    by (simp add: empty_roster_env_def)
  have p: "ModelManager empty_roster_env (st_season empty_roster_env) = Inr sample_manager \<and>
           mm_load_models empty_roster_env sample_manager = Inr sample_manager \<and>
           build_knowledge_graph empty_roster_env sample_manager = Inr sample_manager \<and>
           st_player_name empty_roster_env \<noteq> []"
    by (simp add: empty_roster_env_def sample_env_def)
  have s: "st_season empty_roster_env = ''2023-24''"
    by (simp add: empty_roster_env_def sample_env_def)
  from empty_roster_halts [OF r, of sample_world] p
  have "list_all (\<lambda>ev. \<not> later_stage ev)
          (new_events sample_world (snd (main empty_roster_env sample_world)))"
    and "main empty_roster_env sample_world =
      (None, sample_world\<lparr>events := events sample_world @
                  [StTitle ''NBA Player Performance Prediction'',
                   StSelectbox ''Select Season:'',
                   Invoked NewModelManager, Invoked ManagerLoadModels,
                   Invoked BuildKnowledgeGraph,
                   StTextInput ''Enter Player Name (e.g., LeBron James)'',
                   Invoked GetAllPlayers,
                   StError (''No player data available for season '' @
                            st_season empty_roster_env @ ''.'')]\<rparr>)"
    by blast+
  with r show ?thesis
    by (simp add: s sample_world_def)
qed

text \<open>
  Claim C9. In a run that reaches the Predict button with the button pressed, in which
  features can be built, the regression pipeline returns 28.4 and the classification
  pipeline returns 1, the script writes \<^verbatim>\<open>**Predicted Points:** 28.40\<close> and, right
  after it, \<^verbatim>\<open>**Will Exceed Threshold:** Yes\<close>, whatever the later stages do. Shown
  as Markdown these read \<^verbatim>\<open>Predicted Points: 28.40\<close> and
  \<^verbatim>\<open>Will Exceed Threshold: Yes\<close>.
\<close>

theorem prediction_lines_displayed:
  assumes load: "ModelManager en (st_season en) = Inr m0" "mm_load_models en m0 = Inr m1"
      "build_knowledge_graph en m1 = Inr mm"
    and name: "st_player_name en \<noteq> []"
    and roster: "get_all_players en (st_season en) = Inr players_df" "players_df \<noteq> []"
    and pid: "get_player_id en (st_player_name en) players_df = Inr player_id"
      "player_id \<noteq> PNone"
    and teams: "get_team_data en = Inr all_teams" "all_teams \<noteq> []"
    and click: "st_predict en"
    and feat: "prepare_input en (st_player_name en)
                 (st_opponent en (abbreviation_column all_teams)) (st_season en) = Inr X"
    and reg: "predict_regression en X (regressor_pipeline mm) = Inr float_28_4"
    and clf: "predict_classification en X (classifier_pipeline mm) = Inr 1"
  shows "(\<exists>before after.
            new_events w (snd (main en w)) =
              before @ [StWrite ''**Predicted Points:** 28.40'',
                        StWrite ''**Will Exceed Threshold:** Yes''] @ after) \<and>
         markdown_text ''**Predicted Points:** 28.40'' = ''Predicted Points: 28.40'' \<and>
         markdown_text ''**Will Exceed Threshold:** Yes'' = ''Will Exceed Threshold: Yes''"
proof -
  let ?opp = "st_opponent en (abbreviation_column all_teams)"
  let ?pre = "[StTitle ''NBA Player Performance Prediction'',
               StSelectbox ''Select Season:'',
               Invoked NewModelManager, Invoked ManagerLoadModels, Invoked BuildKnowledgeGraph,
               StTextInput ''Enter Player Name (e.g., LeBron James)'',
               Invoked GetAllPlayers, Invoked GetPlayerId, Invoked GetTeamData,
               StSelectbox ''Select Opponent Team'',
               StHeader (''Predict Performance for '' @ st_player_name en @ '' against '' @ ?opp),
               StButton ''Predict'']"
  let ?w10 = "w\<lparr>events := events w @ ?pre\<rparr>"
  let ?lines = "[Invoked PrepareInput, Invoked PredictRegression, Invoked PredictClassification,
            StWrite (''**Predicted Points:** '' @ format_2f float_28_4),
            StWrite (''**Will Exceed Threshold:** '' @ (if (1::int) = 1 then ''Yes'' else ''No''))]"
  have "main en (w\<lparr>events := events w\<rparr>) =
             (None, predict_handlers
                      (predict en mm (st_season en) (st_player_name en) player_id ?opp ?w10))"
    using load name roster pid teams click by (rule main_reaches_predict)
  then have m: "main en w =
             (None, predict_handlers
                      (predict en mm (st_season en) (st_player_name en) player_id ?opp ?w10))"
    by simp
  have "prefix (events ?w10 @ ?lines)
          (events (snd (predict en mm (st_season en) (st_player_name en) player_id ?opp ?w10)))"
    using feat reg clf by (rule prefix_events_predict)
  then have "prefix (events ?w10 @ ?lines) (events (snd (main en w)))"
    unfolding m by (simp add: prefix_events_handlers)
  then obtain after where
    "events (snd (main en w)) = (events ?w10 @ ?lines) @ after"
    by (rule prefixE)
  then have ev: "events (snd (main en w)) =
           events w @ (?pre @ [Invoked PrepareInput, Invoked PredictRegression,
                               Invoked PredictClassification]) @
             [StWrite ''**Predicted Points:** 28.40'',
              StWrite ''**Will Exceed Threshold:** Yes''] @ after"
    by (simp add: format_float_28_4)
  have "new_events w (snd (main en w)) =
          (?pre @ [Invoked PrepareInput, Invoked PredictRegression,
                   Invoked PredictClassification]) @
             [StWrite ''**Predicted Points:** 28.40'',
              StWrite ''**Will Exceed Threshold:** Yes''] @ after"
    unfolding new_events_def ev by simp
  then have "\<exists>before after.
            new_events w (snd (main en w)) =
              before @ [StWrite ''**Predicted Points:** 28.40'',
                        StWrite ''**Will Exceed Threshold:** Yes''] @ after"
    by blast
  then show ?thesis by simp
qed

theorem prediction_lines_displayed_witness:
  "st_player_name sample_env = ''LeBron James'' \<and>
   st_season sample_env = ''2023-24'' \<and>
   st_opponent sample_env (abbreviation_column [(1610612738, ''BOS''), (1610612747, ''LAL'')]) = ''BOS'' \<and>
   predict_regression sample_env [1, 0] 0 = Inr float_28_4 \<and>
   predict_classification sample_env [1, 0] 1 = Inr 1 \<and>
   (\<exists>before after.
      new_events sample_world (snd (main sample_env sample_world)) =
        before @ [StWrite ''**Predicted Points:** 28.40'',
                  StWrite ''**Will Exceed Threshold:** Yes''] @ after)"
proof -
  have "\<exists>before after.
      new_events sample_world (snd (main sample_env sample_world)) =
        before @ [StWrite ''**Predicted Points:** 28.40'',
                  StWrite ''**Will Exceed Threshold:** Yes''] @ after"
    using prediction_lines_displayed
      [of sample_env sample_manager sample_manager sample_manager
          "[(PInt 2544, ''LeBron James'')]" "PInt 2544"
          "[(1610612738, ''BOS''), (1610612747, ''LAL'')]" "[1, 0]" sample_world]
    by (simp add: sample_env_def sample_manager_def)
  then show ?thesis
    by (simp add: sample_env_def)
qed

text \<open>
  Claim C2 says that every failure turned into a message for the user is also logged
  in full. \<open>visualize_subgraph\<close> does so (message and traceback go to the log before the
  user is told), and \<open>load_models\<close> logs before it re-raises. The three handlers
  around the Predict flow in \<open>main\<close> only call \<^verbatim>\<open>st.error\<close>: in the run below the
  feature builder raises a \<^verbatim>\<open>ValueError\<close>, the user sees the input error, and the
  record of the run holds no log entry at all.
\<close>

theorem predict_failure_is_not_logged:
  "main bad_input_env sample_world =
     (None,
      \<lparr>heap = sample_heap, files = [],
       events = [StTitle ''NBA Player Performance Prediction'',
                 StSelectbox ''Select Season:'',
                 Invoked NewModelManager, Invoked ManagerLoadModels,
                 Invoked BuildKnowledgeGraph,
                 StTextInput ''Enter Player Name (e.g., LeBron James)'',
                 Invoked GetAllPlayers, Invoked GetPlayerId, Invoked GetTeamData,
                 StSelectbox ''Select Opponent Team'',
                 StHeader ''Predict Performance for LeBron James against BOS'',
                 StButton ''Predict'',
                 Invoked PrepareInput,
                 StError ''Input error: Not enough games for LeBron James'']\<rparr>)"
  by (simp add: main_def load_models_def load_models_body_def predict_def predict_handlers_def
        bad_input_env_def sample_env_def sample_world_def abbreviation_column_def Let_def
        emit_def)

end
